theory Spec2Isabelle
  imports Main "HOL-Library.Sublist" "HOL-Library.Word"
begin

section \<open>Data model\<close>

text \<open>
  A thrown JavaScript \<^verbatim>\<open>Error\<close> (or a rejected promise) is a value carrying its message.
\<close>

datatype error = Error string

fun message :: "error \<Rightarrow> string" where
  "message (Error m) = m"

text \<open>
  JSON values of the profile fields that the broker never inspects
  (\<^verbatim>\<open>type\<close>, \<^verbatim>\<open>account\<close>, and whatever else a fetched profile carries).
\<close>

datatype jvalue =
    JNull
  | JBool bool
  | JNum int
  | JStr string
  | JArr "jvalue list"
  | JObj "(string \<times> jvalue) list"

text \<open>
  A profile document, at the shape the data model gives it. \<open>apps\<close> is \<open>None\<close> when
  the property is \<^verbatim>\<open>null\<close> or \<^verbatim>\<open>undefined\<close>; otherwise it is the object mapping an
  application origin to its storage read URL, a string. \<open>others\<close> holds the remaining own
  properties.
\<close>

record profile =
  others :: "string \<rightharpoonup> jvalue"
  apps :: "(string \<rightharpoonup> string) option"

text \<open>\<^verbatim>\<open>NamedIdentityType\<close>. A \<^verbatim>\<open>null\<close> profile is \<open>None\<close>; \<^verbatim>\<open>{}\<close> is \<open>Some empty_object\<close>.\<close>

record NamedIdentityType =
  name :: string
  idAddress :: string
  privateKey :: string
  index :: nat
  profile :: "profile option"
  profileUrl :: string

text \<open>
  The value a name lookup resolves to. The code tests the profile URL for truthiness only:
  a URL that is \<^verbatim>\<open>null\<close> or \<^verbatim>\<open>undefined\<close> is the empty string here.
\<close>

record nameData =
  nd_error :: "string option"
  nd_profileUrl :: string
  nd_profile :: "profile option"

text \<open>\<^verbatim>\<open>GaiaHubConfig\<close>, as far as the broker reads it.\<close>

record GaiaHubConfig =
  url_prefix :: string
  address :: string

definition empty_object :: profile where
  "empty_object = \<lparr>others = Map.empty, apps = None\<rparr>"

text \<open>A string is truthy in JavaScript when it is not empty.\<close>

definition truthy :: "string \<Rightarrow> bool" where
  "truthy s = (s \<noteq> [])"

section \<open>Profile reconciliation\<close>

text \<open>
  \<^verbatim>\<open>const gaiaPrefix = `${appGaiaConfig.url_prefix}${appGaiaConfig.address}/`\<close>
\<close>

definition gaiaPrefix :: "GaiaHubConfig \<Rightarrow> string" where
  "gaiaPrefix appGaiaConfig = url_prefix appGaiaConfig @ address appGaiaConfig @ ''/''"

text \<open>The profile instantiated when the lookup yields none.\<close>

definition default_profile :: profile where
  "default_profile =
     \<lparr>others = [''type'' \<mapsto> JStr ''@Person'', ''account'' \<mapsto> JArr []],
      apps = Some Map.empty\<rparr>"

text \<open>
  The two object operations of the reconciliation, on an \<^verbatim>\<open>apps\<close> object whose own
  properties are the map. \<^verbatim>\<open>profile.apps.hasOwnProperty(appOrigin)\<close> looks the method up on
  the object first: an own property named \<^verbatim>\<open>hasOwnProperty\<close> (a string of the fetched
  document) hides the one of \<^verbatim>\<open>Object.prototype\<close> and cannot be called, a \<^verbatim>\<open>TypeError\<close>.
  \<^verbatim>\<open>profile.apps[appOrigin] = gaiaPrefix\<close> writes an own property or creates one, except for
  the key \<^verbatim>\<open>__proto__\<close> when it is not an own property: the assignment then reaches the
  setter of \<^verbatim>\<open>Object.prototype\<close>, which ignores a string, and nothing is stored.
\<close>

definition hasOwnProperty :: "(string \<rightharpoonup> string) \<Rightarrow> string \<Rightarrow> error + bool" where
  "hasOwnProperty obj key =
     (case obj ''hasOwnProperty'' of
        Some v \<Rightarrow> Inl (Error ''TypeError: profile.apps.hasOwnProperty is not a function'')
      | None \<Rightarrow> Inr (obj key \<noteq> None))"

definition assignProperty ::
  "(string \<rightharpoonup> string) \<Rightarrow> string \<Rightarrow> string \<Rightarrow> (string \<rightharpoonup> string)" where
  "assignProperty obj key v =
     (if key = ''__proto__'' \<and> obj key = None then obj else obj(key \<mapsto> v))"

text \<open>
  The body of the \<^verbatim>\<open>then\<close> callback of \<^verbatim>\<open>updateProfileApps\<close>: \<open>profileData\<close> is what
  the lookup resolved to, \<open>None\<close> when it was rejected (\<^verbatim>\<open>.catch((e) => null)\<close>).
  The result is \<^verbatim>\<open>{ profile, changed: needProfileUpdate }\<close>, or the exception thrown.
\<close>

definition reconcileProfile ::
  "nameData option \<Rightarrow> string \<Rightarrow> GaiaHubConfig \<Rightarrow> error + profile \<times> bool" where
  "reconcileProfile profileData appOrigin appGaiaConfig =
     (let fetched = (case profileData of None \<Rightarrow> None | Some d \<Rightarrow> nd_profile d);
          (profile1, need1) =
             (case fetched of
                None \<Rightarrow> (default_profile, True)
              | Some p \<Rightarrow> (p, False));
          (apps2, need2) =
             (case apps profile1 of
                None \<Rightarrow> (Map.empty, True)
              | Some a \<Rightarrow> (a, need1));
          pfx = gaiaPrefix appGaiaConfig
      in case hasOwnProperty apps2 appOrigin of
           Inl e \<Rightarrow> Inl e
         | Inr own \<Rightarrow>
             (case apps2 appOrigin of
                None \<Rightarrow> Inr (profile1\<lparr>apps := Some (assignProperty apps2 appOrigin pfx)\<rparr>, True)
              | Some url \<Rightarrow>
                  if \<not> own \<or> \<not> truthy url then
                    Inr (profile1\<lparr>apps := Some (assignProperty apps2 appOrigin pfx)\<rparr>, True)
                  else if \<not> prefix pfx url then
                    Inr (profile1\<lparr>apps := Some (assignProperty apps2 appOrigin pfx)\<rparr>, True)
                  else Inr (profile1\<lparr>apps := Some apps2\<rparr>, need2)))"

text \<open>
  \<^verbatim>\<open>updateProfileApps(network, id, appOrigin, appGaiaConfig)\<close>. The name lookup of the
  registry is a parameter: \<open>Inl\<close> is a rejected promise, which the source turns into
  \<^verbatim>\<open>null\<close>.
\<close>

definition updateProfileApps ::
  "(string \<Rightarrow> error + nameData) \<Rightarrow> NamedIdentityType \<Rightarrow> string \<Rightarrow> GaiaHubConfig
     \<Rightarrow> error + profile \<times> bool" where
  "updateProfileApps nameLookup ident appOrigin appGaiaConfig =
     (let profileData = (case nameLookup (name ident) of Inl e \<Rightarrow> None | Inr d \<Rightarrow> Some d)
      in reconcileProfile profileData appOrigin appGaiaConfig)"

section \<open>Identity discovery\<close>

text \<open>What \<^verbatim>\<open>getOwnerKeyInfo(network, mnemonic, index)\<close> returns, as far as it is read.\<close>

record ownerKeyInfo =
  ok_idAddress :: string
  ok_privateKey :: string

text \<open>
  \<^verbatim>\<open>loadNamedIdentitiesLoop(network, mnemonic, index, identities)\<close>. The key derivation
  \<open>getOwnerKeyInfo\<close> and the registry query \<open>getNamesOwned\<close> (\<open>Inl\<close>: the promise is
  rejected) are parameters. \<^verbatim>\<open>keyInfo.idAddress.slice(3)\<close> is \<open>drop 3\<close>.
\<close>

function loadNamedIdentitiesLoop ::
  "(string \<Rightarrow> nat \<Rightarrow> ownerKeyInfo) \<Rightarrow> (string \<Rightarrow> error + string list) \<Rightarrow> string \<Rightarrow> nat
     \<Rightarrow> NamedIdentityType list \<Rightarrow> error + NamedIdentityType list" where
  "loadNamedIdentitiesLoop getOwnerKeyInfo getNamesOwned mnemonic idx identities =
     (if idx > 65536 then Inl (Error ''Too many names'')
      else
        (case getNamesOwned (drop 3 (ok_idAddress (getOwnerKeyInfo mnemonic idx))) of
           Inl e \<Rightarrow> Inl e
         | Inr nameList \<Rightarrow>
             if length nameList = 0 then Inr identities
             else loadNamedIdentitiesLoop getOwnerKeyInfo getNamesOwned mnemonic (idx + 1)
                    (identities @
                     map (\<lambda>n. \<lparr>name = n,
                               idAddress = ok_idAddress (getOwnerKeyInfo mnemonic idx),
                               privateKey = ok_privateKey (getOwnerKeyInfo mnemonic idx),
                               index = idx,
                               profile = Some empty_object,
                               profileUrl = []\<rparr>) nameList)))"
  by pat_completeness auto
termination
  by (relation "measure (\<lambda>(k, r, m, idx, ids). 65537 - idx)") auto

text \<open>
  The registry queries the loop issues from \<open>idx\<close> on, in call order: the argument of each
  \<^verbatim>\<open>network.getNamesOwned\<close> call. It follows the control flow of the loop above.
\<close>

function namesOwnedQueries ::
  "(string \<Rightarrow> nat \<Rightarrow> ownerKeyInfo) \<Rightarrow> (string \<Rightarrow> error + string list) \<Rightarrow> string \<Rightarrow> nat
     \<Rightarrow> string list" where
  "namesOwnedQueries getOwnerKeyInfo getNamesOwned mnemonic idx =
     (if idx > 65536 then []
      else
        drop 3 (ok_idAddress (getOwnerKeyInfo mnemonic idx)) #
        (case getNamesOwned (drop 3 (ok_idAddress (getOwnerKeyInfo mnemonic idx))) of
           Inl e \<Rightarrow> []
         | Inr nameList \<Rightarrow>
             if length nameList = 0 then []
             else namesOwnedQueries getOwnerKeyInfo getNamesOwned mnemonic (idx + 1)))"
  by pat_completeness auto
termination
  by (relation "measure (\<lambda>(k, r, m, idx). 65537 - idx)") auto

definition loadNamedIdentities ::
  "(string \<Rightarrow> nat \<Rightarrow> ownerKeyInfo) \<Rightarrow> (string \<Rightarrow> error + string list) \<Rightarrow> string
     \<Rightarrow> error + NamedIdentityType list" where
  "loadNamedIdentities getOwnerKeyInfo getNamesOwned mnemonic =
     loadNamedIdentitiesLoop getOwnerKeyInfo getNamesOwned mnemonic 0 []"

definition loadUnnamedIdentity ::
  "(string \<Rightarrow> nat \<Rightarrow> ownerKeyInfo) \<Rightarrow> string \<Rightarrow> nat \<Rightarrow> NamedIdentityType" where
  "loadUnnamedIdentity getOwnerKeyInfo mnemonic idx =
     \<lparr>name = [],
      idAddress = ok_idAddress (getOwnerKeyInfo mnemonic idx),
      privateKey = ok_privateKey (getOwnerKeyInfo mnemonic idx),
      index = idx,
      profile = Some empty_object,
      profileUrl = []\<rparr>"

text \<open>
  \<^verbatim>\<open>nameDatas[i].hasOwnProperty('error') && nameDatas[i].error\<close>
\<close>

definition hasError :: "nameData \<Rightarrow> bool" where
  "hasError d = (case nd_error d of None \<Rightarrow> False | Some e \<Rightarrow> truthy e)"

text \<open>
  The loop \<^verbatim>\<open>for (let i = 0; i < nameDatas.length; i++)\<close> of \<^verbatim>\<open>getIdentityInfo\<close>, entered at
  \<open>i\<close> with the name data that is left. Writing to \<^verbatim>\<open>identities[i]\<close> beyond the end of the
  array is a \<^verbatim>\<open>TypeError\<close>.
\<close>

fun attachNameDatas ::
  "nat \<Rightarrow> nameData list \<Rightarrow> NamedIdentityType list \<Rightarrow> error + NamedIdentityType list" where
  "attachNameDatas i [] identities = Inr identities"
| "attachNameDatas i (d # ds) identities =
     (if i < length identities then
        attachNameDatas (Suc i) ds
          (identities[i :=
             (if hasError d then (identities ! i)\<lparr>profileUrl := []\<rparr>
              else (identities ! i)\<lparr>profileUrl := nd_profileUrl d, profile := nd_profile d\<rparr>)])
      else Inl (Error ''TypeError''))"

text \<open>
  \<^verbatim>\<open>getIdentityInfo(network, mnemonic, appGaiaHub, profileGaiaHub)\<close>; the two hub arguments
  are not read. Every lookup promise is given \<^verbatim>\<open>.catch(() => null)\<close>, the resolved list is
  filtered for non-null entries, and only then is it walked by position.
\<close>

definition getIdentityInfo ::
  "(string \<Rightarrow> nat \<Rightarrow> ownerKeyInfo) \<Rightarrow> (string \<Rightarrow> error + string list)
     \<Rightarrow> (string \<Rightarrow> error + nameData) \<Rightarrow> string \<Rightarrow> error + NamedIdentityType list" where
  "getIdentityInfo getOwnerKeyInfo getNamesOwned nameLookup mnemonic =
     (case loadNamedIdentities getOwnerKeyInfo getNamesOwned mnemonic of
        Inl e \<Rightarrow> Inl e
      | Inr ids \<Rightarrow>
          (let nameInfos =
                 map (\<lambda>ident. case nameLookup (name ident) of Inl e \<Rightarrow> None | Inr d \<Rightarrow> Some d) ids;
               nameDatas = map the (filter (\<lambda>p. p \<noteq> None) nameInfos)
           in case attachNameDatas 0 nameDatas ids of
                Inl e \<Rightarrow> Inl e
              | Inr identities \<Rightarrow>
                  (let nextIndex = length identities + 1;
                       kept = filter (\<lambda>ident. truthy (profileUrl ident)) identities
                   in Inr (kept @ [loadUnnamedIdentity getOwnerKeyInfo mnemonic nextIndex]))))"

section \<open>The sign-in handshake\<close>

text \<open>
  The metadata the broker puts into a credential before it encrypts it
  (\<^verbatim>\<open>makeSignInLink\<close>), and the envelope a token payload can carry: none
  (\<^verbatim>\<open>undefined\<close>), the handshake state, or the object \<^verbatim>\<open>{ profileUrl }\<close>.
\<close>

record handshake =
  md_id :: NamedIdentityType
  md_profileUrl :: string
  md_appOrigin :: string
  md_redirect_uri :: string
  md_scopes :: "string list"
  md_salt :: string

datatype metadata =
    NoMetadata
  | HandshakeMetadata handshake
  | ProfileUrlOnly string

text \<open>
  The payload of a decoded token: its \<^verbatim>\<open>json\<close> property (the encrypted credential of the
  outer token), its \<^verbatim>\<open>metadata\<close> property, and the claims the broker does not read.
\<close>

record payload =
  json :: "string option"
  metadata :: metadata
  claims :: "string \<rightharpoonup> jvalue"

text \<open>The decoded authentication request, as far as \<^verbatim>\<open>makeSignInLink\<close> reads it.\<close>

record authRequest =
  domain_name :: string
  redirect_uri :: string
  scopes :: "string list"
  public_keys :: "string list"

text \<open>What \<^verbatim>\<open>gaiaUploadProfileAll\<close> resolves to.\<close>

record uploadResult =
  dataUrls :: "string list option"
  upload_error :: "string option"

text \<open>One call of \<^verbatim>\<open>gaiaUploadProfileAll(network, gaiaUrls, profileJWT, privateKey, name)\<close>.\<close>

record uploadCall =
  up_gaiaUrls :: "string list"
  up_profileJWT :: string
  up_privateKey :: string
  up_name :: string

text \<open>
  The collaborators of the broker: the token library, the content cipher, key derivation,
  the storage hub and the registry. \<open>'k\<close> is the application key information.
  A function that can throw, or whose promise can be rejected, returns \<open>Inl\<close> then.
  Signing, and decoding a token that has been verified, are taken to return, and
  \<^verbatim>\<open>gaiaUploadProfileAll\<close> to resolve to the object whose \<^verbatim>\<open>error\<close> property the handler
  tests. \<open>authTransitKey\<close> and \<open>authTransitPubkey\<close> are the key pair made when the
  module is loaded.
\<close>

record 'k broker =
  authTransitKey :: string
  authTransitPubkey :: string
  blockstackAPIUrl :: string
  tokenVerify :: "string \<Rightarrow> string \<Rightarrow> string \<Rightarrow> bool"
  tokenSign :: "string \<Rightarrow> string \<Rightarrow> payload \<Rightarrow> string"
  decodeToken :: "string \<Rightarrow> payload"
  encryptContent :: "string \<Rightarrow> string \<Rightarrow> string"
  decryptContent :: "string \<Rightarrow> string \<Rightarrow> error + string"
  makeAuthResponse ::
    "string \<Rightarrow> string \<Rightarrow> string \<Rightarrow> string \<Rightarrow> string option \<Rightarrow> string \<Rightarrow> string \<Rightarrow> string \<Rightarrow> string"
  makeAssociationToken :: "string \<Rightarrow> string \<Rightarrow> string"
  verifyAuthResponse :: "string \<Rightarrow> string \<Rightarrow> error + bool"
  getApplicationKeyInfo :: "string \<Rightarrow> string \<Rightarrow> string \<Rightarrow> nat \<Rightarrow> 'k"
  getGaiaAddressFromProfile :: "profile option \<Rightarrow> string \<Rightarrow> error + string"
  extractAppKey :: "'k \<Rightarrow> string option \<Rightarrow> error + string"
  gaiaConnect :: "string \<Rightarrow> string \<Rightarrow> error + GaiaHubConfig"
  nameLookup :: "string \<Rightarrow> error + nameData"
  makeProfileJWT :: "profile \<Rightarrow> string \<Rightarrow> string"
  gaiaUploadProfileAll :: "string list \<Rightarrow> string \<Rightarrow> string \<Rightarrow> string \<Rightarrow> uploadResult"
  updateQueryStringParameter :: "string \<Rightarrow> string \<Rightarrow> string \<Rightarrow> string"

text \<open>
  \<^verbatim>\<open>getAppPrivateKey(network, mnemonic, id, appOrigin)\<close>: the key that matches the address
  the profile already names; on any exception in that attempt, the key without an address.
\<close>

definition getAppPrivateKey ::
  "'k broker \<Rightarrow> string \<Rightarrow> NamedIdentityType \<Rightarrow> string \<Rightarrow> error + string" where
  "getAppPrivateKey env mnemonic ident appOrigin =
     (let appKeyInfo = getApplicationKeyInfo env mnemonic (idAddress ident) appOrigin (index ident)
      in case getGaiaAddressFromProfile env (profile ident) appOrigin of
           Inl e \<Rightarrow> extractAppKey env appKeyInfo None
         | Inr existingAppAddress \<Rightarrow>
             (case extractAppKey env appKeyInfo (Some existingAppAddress) of
                Inl e \<Rightarrow> extractAppKey env appKeyInfo None
              | Inr appPrivateKey \<Rightarrow> Inr appPrivateKey))"

text \<open>The decimal digits of a number, as a template string prints it.\<close>

function decimal :: "nat \<Rightarrow> string" where
  "decimal n =
     (if n < 10 then [''0123456789'' ! n]
      else decimal (n div 10) @ [''0123456789'' ! (n mod 10)])"
  by pat_completeness auto
termination
  by (relation "measure id") auto

text \<open>
  \<^verbatim>\<open>makeSignInLink(network, authPort, mnemonic, authRequest, hubUrl, id)\<close>. \<open>salt\<close> is
  \<^verbatim>\<open>crypto.randomBytes(16).toString('hex')\<close> and \<open>configAPIUrl\<close> is
  \<^verbatim>\<open>blockstack.config.network.blockstackAPIUrl\<close>. \<^verbatim>\<open>authRequest.public_keys[0]\<close> is
  \<^verbatim>\<open>undefined\<close> on an empty array.
\<close>

definition makeSignInLink ::
  "'k broker \<Rightarrow> string \<Rightarrow> string \<Rightarrow> nat \<Rightarrow> string \<Rightarrow> authRequest \<Rightarrow> string
     \<Rightarrow> NamedIdentityType \<Rightarrow> error + string" where
  "makeSignInLink env configAPIUrl salt authPort mnemonic authReq hubUrl ident =
     (let appOrigin = domain_name authReq
      in case getAppPrivateKey env mnemonic ident appOrigin of
           Inl e \<Rightarrow> Inl e
         | Inr appPrivateKey \<Rightarrow>
             (let associationToken = makeAssociationToken env appPrivateKey (privateKey ident);
                  authResponseTmp =
                    makeAuthResponse env (privateKey ident) (name ident) (profileUrl ident)
                      appPrivateKey
                      (case public_keys authReq of [] \<Rightarrow> None | k # ks \<Rightarrow> Some k)
                      hubUrl configAPIUrl associationToken;
                  authResponsePayload =
                    (decodeToken env authResponseTmp)
                      \<lparr>metadata := HandshakeMetadata
                         \<lparr>md_id = ident,
                          md_profileUrl = profileUrl ident,
                          md_appOrigin = appOrigin,
                          md_redirect_uri = redirect_uri authReq,
                          md_scopes = scopes authReq,
                          md_salt = salt\<rparr>\<rparr>;
                  authResponse = tokenSign env ''ES256k'' (privateKey ident) authResponsePayload;
                  encryptedAuthResponseJSON =
                    encryptContent env authResponse (authTransitPubkey env);
                  encryptedAuthResponse =
                    \<lparr>json = Some encryptedAuthResponseJSON, metadata = NoMetadata,
                     claims = Map.empty\<rparr>;
                  encAuthResponse =
                    tokenSign env ''ES256k'' (authTransitKey env) encryptedAuthResponse
              in Inr (updateQueryStringParameter env
                        (''http://localhost:'' @ decimal authPort @ ''/signin'')
                        ''encAuthResponse'' encAuthResponse)))"

text \<open>
  The state shared by the steps of \<^verbatim>\<open>handleSignIn\<close>: what the final \<^verbatim>\<open>catch\<close> reads
  (\<^verbatim>\<open>errorMsg\<close>, \<^verbatim>\<open>undefined\<close> until a step sets it, and \<^verbatim>\<open>errorStatusCode\<close>), and the
  variables the second step fills in.
\<close>

record failure =
  errorMsg :: "string option"
  errorStatusCode :: nat

record signin =
  si_id :: NamedIdentityType
  si_appOrigin :: string
  si_redirectUri :: string
  si_scopes :: "string list"
  si_authResponse :: string
  si_appHubConfig :: GaiaHubConfig

datatype response =
    SendJSON nat string
  | Redirect string

text \<open>
  First step: the outer token is verified against the transit public key, decoded, and
  its content decrypted with the transit private key; then the credential itself is
  verified. An exception leaves \<^verbatim>\<open>errorMsg\<close> unset.
\<close>

definition signInDecrypt :: "'k broker \<Rightarrow> string \<Rightarrow> failure + (string \<times> bool)" where
  "signInDecrypt env encAuthResponse =
     (let nameLookupUrl = blockstackAPIUrl env @ ''/v1/names/'';
          valid = tokenVerify env ''ES256K'' (authTransitPubkey env) encAuthResponse
      in if \<not> valid then Inl \<lparr>errorMsg = None, errorStatusCode = 400\<rparr>
         else
           (case json (decodeToken env encAuthResponse) of
              None \<Rightarrow> Inl \<lparr>errorMsg = None, errorStatusCode = 400\<rparr>
            | Some content \<Rightarrow>
                (case decryptContent env content (authTransitKey env) of
                   Inl e \<Rightarrow> Inl \<lparr>errorMsg = None, errorStatusCode = 400\<rparr>
                 | Inr authResponse \<Rightarrow>
                     (case verifyAuthResponse env authResponse nameLookupUrl of
                        Inl e \<Rightarrow> Inl \<lparr>errorMsg = None, errorStatusCode = 400\<rparr>
                      | Inr ok \<Rightarrow> Inr (authResponse, ok)))))"

text \<open>
  Second step: the handshake state is read from the metadata, the application key is
  derived, the metadata is replaced by \<^verbatim>\<open>{ profileUrl: profileUrl }\<close>, the payload signed
  again, and the application's hub connected. Reading \<^verbatim>\<open>metadata.id\<close> of a token without
  the handshake state ends in the \<^verbatim>\<open>catch\<close> (a \<^verbatim>\<open>TypeError\<close>).
\<close>

definition signInResign ::
  "'k broker \<Rightarrow> string \<Rightarrow> string \<Rightarrow> string \<times> bool \<Rightarrow> failure + signin" where
  "signInResign env mnemonic appGaiaHub verified =
     (case verified of (authResponse, valid) \<Rightarrow>
        if \<not> valid then
          Inl \<lparr>errorMsg = Some (''Unable to verify authResponse token '' @ authResponse),
               errorStatusCode = 400\<rparr>
        else
          (let authResponsePayload = decodeToken env authResponse
           in case metadata authResponsePayload of
                HandshakeMetadata md \<Rightarrow>
                  (let ident = md_id md;
                       profileUrl = md_profileUrl md;
                       appOrigin = md_appOrigin md;
                       redirectUri = md_redirect_uri md;
                       scopes = md_scopes md
                   in case getAppPrivateKey env mnemonic ident appOrigin of
                        Inl e \<Rightarrow> Inl \<lparr>errorMsg = None, errorStatusCode = 400\<rparr>
                      | Inr appPrivateKey \<Rightarrow>
                          (let authResponse' =
                                 tokenSign env ''ES256K'' (privateKey ident)
                                   (authResponsePayload\<lparr>metadata := ProfileUrlOnly profileUrl\<rparr>)
                           in case gaiaConnect env appGaiaHub appPrivateKey of
                                Inl e \<Rightarrow> Inl \<lparr>errorMsg = None, errorStatusCode = 400\<rparr>
                              | Inr appHubConfig \<Rightarrow>
                                  Inr \<lparr>si_id = ident, si_appOrigin = appOrigin,
                                       si_redirectUri = redirectUri, si_scopes = scopes,
                                       si_authResponse = authResponse',
                                       si_appHubConfig = appHubConfig\<rparr>))
              | _ \<Rightarrow> Inl \<lparr>errorMsg = None, errorStatusCode = 400\<rparr>))"

text \<open>
  Fourth step (the third is \<open>updateProfileApps\<close>): the profile is signed and uploaded when
  it changed and the scopes include \<^verbatim>\<open>store_write\<close>. The result is the list of upload
  calls made and what the step resolves to.
\<close>

definition signInUpload ::
  "'k broker \<Rightarrow> string \<Rightarrow> signin \<Rightarrow> profile \<times> bool \<Rightarrow> uploadCall list \<times> uploadResult" where
  "signInUpload env profileGaiaHub st newProfileData =
     (case newProfileData of (prof, changed) \<Rightarrow>
        (let needProfileUpdate = (changed \<and> ''store_write'' \<in> set (si_scopes st))
         in if needProfileUpdate then
              (let profileJWT = makeProfileJWT env prof (privateKey (si_id st))
               in ([\<lparr>up_gaiaUrls = [profileGaiaHub], up_profileJWT = profileJWT,
                     up_privateKey = privateKey (si_id st), up_name = name (si_id st)\<rparr>],
                   gaiaUploadProfileAll env [profileGaiaHub] profileJWT
                     (privateKey (si_id st)) (name (si_id st))))
            else ([], \<lparr>dataUrls = Some [], upload_error = None\<rparr>)))"

text \<open>
  Fifth step: \<^verbatim>\<open>gaiaUrls.hasOwnProperty('error') && gaiaUrls.error\<close> sets the status code
  to 502 and throws; otherwise the browser is redirected.
\<close>

definition signInRedirect :: "'k broker \<Rightarrow> signin \<Rightarrow> uploadResult \<Rightarrow> failure + response" where
  "signInRedirect env st gaiaUrls =
     (case upload_error gaiaUrls of
        None \<Rightarrow>
          Inr (Redirect (updateQueryStringParameter env (si_redirectUri st) ''authResponse''
                           (si_authResponse st)))
      | Some e \<Rightarrow>
          if truthy e then
            Inl \<lparr>errorMsg = Some (''Failed to upload new profile: '' @ e),
                 errorStatusCode = 502\<rparr>
          else
            Inr (Redirect (updateQueryStringParameter env (si_redirectUri st) ''authResponse''
                             (si_authResponse st))))"

text \<open>
  The final \<^verbatim>\<open>catch\<close>: \<^verbatim>\<open>sendJSON(res, { error: ... }, errorStatusCode)\<close>. An unset
  \<^verbatim>\<open>errorMsg\<close> is printed as \<^verbatim>\<open>undefined\<close> by the template string.
\<close>

definition signInCatch :: "failure \<Rightarrow> response" where
  "signInCatch f =
     SendJSON (errorStatusCode f)
       (''Unable to process signin request: '' @
        (case errorMsg f of None \<Rightarrow> ''undefined'' | Some m \<Rightarrow> m))"

text \<open>
  \<^verbatim>\<open>handleSignIn(network, mnemonic, appGaiaHub, profileGaiaHub, req, res)\<close>: the response
  written, and the uploads made on the way. \<open>query\<close> is \<^verbatim>\<open>req.query.encAuthResponse\<close>.
  An exception of \<^verbatim>\<open>updateProfileApps\<close> reaches the \<^verbatim>\<open>catch\<close> with \<^verbatim>\<open>errorMsg\<close> unset.
\<close>

definition handleSignIn ::
  "'k broker \<Rightarrow> string \<Rightarrow> string \<Rightarrow> string \<Rightarrow> string option \<Rightarrow> response \<times> uploadCall list" where
  "handleSignIn env mnemonic appGaiaHub profileGaiaHub query =
     (case query of
        None \<Rightarrow> (SendJSON 400 ''No encAuthResponse given'', [])
      | Some encAuthResponse \<Rightarrow>
          if \<not> truthy encAuthResponse then (SendJSON 400 ''No encAuthResponse given'', [])
          else
            (case signInDecrypt env encAuthResponse of
               Inl f \<Rightarrow> (signInCatch f, [])
             | Inr verified \<Rightarrow>
                 (case signInResign env mnemonic appGaiaHub verified of
                    Inl f \<Rightarrow> (signInCatch f, [])
                  | Inr st \<Rightarrow>
                      (case updateProfileApps (nameLookup env) (si_id st) (si_appOrigin st)
                              (si_appHubConfig st) of
                         Inl e \<Rightarrow> (signInCatch \<lparr>errorMsg = None, errorStatusCode = 400\<rparr>, [])
                       | Inr newProfileData \<Rightarrow>
                           (let (calls, gaiaUrls) =
                                  signInUpload env profileGaiaHub st newProfileData
                            in case signInRedirect env st gaiaUrls of
                                 Inl f \<Rightarrow> (signInCatch f, calls)
                               | Inr r \<Rightarrow> (r, calls))))))"

section \<open>Backup phrase encryption\<close>

type_synonym byte = "8 word"
type_synonym buffer = "byte list"

text \<open>
  \<^verbatim>\<open>buf.toString('hex')\<close> and \<^verbatim>\<open>Buffer.from(str, 'hex')\<close>. Decoding reads two digits per
  byte, in either case, and stops at the first pair that is not hexadecimal.
\<close>

definition hexDigit :: "nat \<Rightarrow> char" where
  "hexDigit n = ''0123456789abcdef'' ! n"

definition toHex :: "buffer \<Rightarrow> string" where
  "toHex bs = concat (map (\<lambda>b. [hexDigit (unat b div 16), hexDigit (unat b mod 16)]) bs)"

definition hexValue :: "char \<Rightarrow> nat option" where
  "hexValue c =
     (let n = of_char c :: nat
      in if 48 \<le> n \<and> n \<le> 57 then Some (n - 48)
         else if 97 \<le> n \<and> n \<le> 102 then Some (n - 87)
         else if 65 \<le> n \<and> n \<le> 70 then Some (n - 55)
         else None)"

fun fromHex :: "string \<Rightarrow> buffer" where
  "fromHex (a # b # rest) =
     (case (hexValue a, hexValue b) of
        (Some x, Some y) \<Rightarrow> of_nat (16 * x + y) # fromHex rest
      | _ \<Rightarrow> [])"
| "fromHex _ = []"

text \<open>\<^verbatim>\<open>buf.slice(start, end)\<close> for \<^verbatim>\<open>0 <= start <= end\<close>.\<close>

definition slice :: "nat \<Rightarrow> nat \<Rightarrow> 'a list \<Rightarrow> 'a list" where
  "slice start end xs = take (end - start) (drop start xs)"

text \<open>
  The primitives of \<^verbatim>\<open>bip39\<close>, \<^verbatim>\<open>crypto\<close> and \<^verbatim>\<open>triplesec\<close>. \<open>randomByte\<close> is the
  random generator, as the sequence of bytes it yields to a call. \<open>cipheriv\<close> is
  \<^verbatim>\<open>createCipheriv(algorithm, key, iv)\<close> followed by \<^verbatim>\<open>update\<close> and \<^verbatim>\<open>final\<close>, and
  \<open>decipheriv\<close> likewise; \<^verbatim>\<open>decipher.final()\<close> throws when the padding it finds is not
  valid, which is \<open>Inl\<close>. Entropy travels as a hexadecimal string.
\<close>

record primitives =
  randomByte :: "nat \<Rightarrow> byte"
  validateMnemonic :: "string \<Rightarrow> bool"
  mnemonicToEntropy :: "string \<Rightarrow> error + string"
  entropyToMnemonic :: "string \<Rightarrow> error + string"
  pbkdf2Sync :: "string \<Rightarrow> buffer \<Rightarrow> nat \<Rightarrow> nat \<Rightarrow> string \<Rightarrow> buffer"
  cipheriv :: "string \<Rightarrow> buffer \<Rightarrow> buffer \<Rightarrow> buffer \<Rightarrow> buffer"
  decipheriv :: "string \<Rightarrow> buffer \<Rightarrow> buffer \<Rightarrow> buffer \<Rightarrow> error + buffer"
  hmac :: "string \<Rightarrow> buffer \<Rightarrow> buffer \<Rightarrow> buffer"
  hash :: "string \<Rightarrow> buffer \<Rightarrow> buffer"
  triplesecDecrypt :: "string \<Rightarrow> buffer \<Rightarrow> error + buffer"

text \<open>\<^verbatim>\<open>crypto.randomBytes(n)\<close>: a buffer of the first \<open>n\<close> bytes of the generator.\<close>

definition randomBytes :: "primitives \<Rightarrow> nat \<Rightarrow> buffer" where
  "randomBytes prim n = map (randomByte prim) [0..<n]"

text \<open>
  \<^verbatim>\<open>encryptMnemonic(plaintextBuffer, password)\<close>. \<open>plaintext\<close> is
  \<^verbatim>\<open>plaintextBuffer.toString()\<close>.
\<close>

definition encryptMnemonic :: "primitives \<Rightarrow> string \<Rightarrow> string \<Rightarrow> error + buffer" where
  "encryptMnemonic prim plaintext password =
     (if \<not> validateMnemonic prim plaintext then Inl (Error ''Not a valid bip39 nmemonic'')
      else
        (case mnemonicToEntropy prim plaintext of
           Inl e \<Rightarrow> Inl e
         | Inr entropy \<Rightarrow>
             (let plaintextNormalized = fromHex entropy;
                  salt = randomBytes prim 16;
                  keysAndIV = pbkdf2Sync prim password salt 100000 48 ''sha512'';
                  encKey = slice 0 16 keysAndIV;
                  macKey = slice 16 32 keysAndIV;
                  iv = slice 32 48 keysAndIV;
                  cipherText = toHex (cipheriv prim ''aes-128-cbc'' encKey iv plaintextNormalized);
                  hmacPayload = salt @ fromHex cipherText;
                  hmacDigest = hmac prim ''sha256'' macKey hmacPayload
              in Inr (salt @ hmacDigest @ fromHex cipherText))))"

text \<open>
  \<^verbatim>\<open>decryptMnemonic(dataBuffer, password)\<close>. The cipher text is deciphered, and
  \<^verbatim>\<open>decipher.final()\<close> called, before the two digests are compared.
\<close>

definition decryptMnemonic :: "primitives \<Rightarrow> buffer \<Rightarrow> string \<Rightarrow> error + string" where
  "decryptMnemonic prim dataBuffer password =
     (let salt = slice 0 16 dataBuffer;
          hmacSig = slice 16 48 dataBuffer;
          cipherText = drop 48 dataBuffer;
          hmacPayload = salt @ cipherText;
          keysAndIV = pbkdf2Sync prim password salt 100000 48 ''sha512'';
          encKey = slice 0 16 keysAndIV;
          macKey = slice 16 32 keysAndIV;
          iv = slice 32 48 keysAndIV
      in case decipheriv prim ''aes-128-cbc'' encKey iv (fromHex (toHex cipherText)) of
           Inl e \<Rightarrow> Inl e
         | Inr deciphered \<Rightarrow>
             (let plaintext = toHex deciphered;
                  hmacDigest = hmac prim ''sha256'' macKey hmacPayload;
                  hmacSigHash = toHex (hash prim ''sha256'' hmacSig);
                  hmacDigestHash = toHex (hash prim ''sha256'' hmacDigest)
              in if hmacSigHash \<noteq> hmacDigestHash then
                   Inl (Error ''Wrong password (HMAC mismatch)'')
                 else
                   (case entropyToMnemonic prim plaintext of
                      Inl e \<Rightarrow> Inl e
                    | Inr mnemonic \<Rightarrow>
                        if \<not> validateMnemonic prim mnemonic then
                          Inl (Error ''Wrong password (invalid plaintext)'')
                        else Inr mnemonic)))"

definition encryptBackupPhrase :: "primitives \<Rightarrow> string \<Rightarrow> string \<Rightarrow> error + buffer" where
  "encryptBackupPhrase prim plaintext password = encryptMnemonic prim plaintext password"

text \<open>
  \<^verbatim>\<open>decryptBackupPhrase(dataBuffer, password)\<close> resolves to the mnemonic, or to the buffer
  the legacy algorithm yields when the current one has failed.
\<close>

datatype decrypted = Mnemonic string | LegacyPlaintext buffer

definition decryptBackupPhrase ::
  "primitives \<Rightarrow> buffer \<Rightarrow> string \<Rightarrow> error + decrypted" where
  "decryptBackupPhrase prim dataBuffer password =
     (case decryptMnemonic prim dataBuffer password of
        Inr mnemonic \<Rightarrow> Inr (Mnemonic mnemonic)
      | Inl e \<Rightarrow>
          (case triplesecDecrypt prim password dataBuffer of
             Inr plaintextBuffer \<Rightarrow> Inr (LegacyPlaintext plaintextBuffer)
           | Inl err \<Rightarrow>
               Inl (Error (''current algorithm: '' @ [CHR 0x22] @ message e @ [CHR 0x22] @
                           '', legacy algorithm: '' @ [CHR 0x22] @ message err @ [CHR 0x22]))))"

section \<open>Vocabulary of the properties\<close>

text \<open>Index \<open>i\<close> owns at least one name: the registry answers with a non-empty list.\<close>

definition ownsNames ::
  "(string \<Rightarrow> nat \<Rightarrow> ownerKeyInfo) \<Rightarrow> (string \<Rightarrow> error + string list) \<Rightarrow> string \<Rightarrow> nat \<Rightarrow> bool" where
  "ownsNames getOwnerKeyInfo getNamesOwned mnemonic i =
     (case getNamesOwned (drop 3 (ok_idAddress (getOwnerKeyInfo mnemonic i))) of
        Inl e \<Rightarrow> False
      | Inr nameList \<Rightarrow> nameList \<noteq> [])"

text \<open>An upload has failed: \<^verbatim>\<open>gaiaUrls.hasOwnProperty('error') && gaiaUrls.error\<close>.\<close>

definition uploadFailed :: "uploadResult \<Rightarrow> bool" where
  "uploadFailed r = (case upload_error r of None \<Rightarrow> False | Some e \<Rightarrow> truthy e)"

text \<open>
  The backup format in the words of the specification: a key block of 48 bytes from the
  key derivation with 100,000 iterations over the salt, split into cipher key, MAC key
  and initialisation vector of 16 bytes each; the entropy encrypted with the block cipher
  in CBC mode; HMAC-SHA256 over salt and cipher text; and the three parts concatenated.
\<close>

definition backupFormat :: "primitives \<Rightarrow> buffer \<Rightarrow> buffer \<Rightarrow> string \<Rightarrow> buffer" where
  "backupFormat prim salt entropy password =
     (let keyBlock = pbkdf2Sync prim password salt 100000 48 ''sha512'';
          cipherKey = take 16 keyBlock;
          macKey = take 16 (drop 16 keyBlock);
          iv = take 16 (drop 32 keyBlock);
          cipherText = cipheriv prim ''aes-128-cbc'' cipherKey iv entropy;
          mac = hmac prim ''sha256'' macKey (salt @ cipherText)
      in salt @ mac @ cipherText)"

section \<open>Concrete scenarios\<close>

definition ex_config :: GaiaHubConfig where
  "ex_config = \<lparr>url_prefix = ''https://hub.example/'', address = ''1App''\<rparr>"

definition ex_alice :: NamedIdentityType where
  "ex_alice =
     \<lparr>name = ''alice.id'', idAddress = ''ID-1Alice'', privateKey = ''keyA'', index = 0,
      profile = Some empty_object, profileUrl = ''https://hub.example/alice/profile.json''\<rparr>"

text \<open>A registry whose lookup resolves to a profile with the given \<^verbatim>\<open>apps\<close> object.\<close>

definition ex_lookup_apps :: "(string \<rightharpoonup> string) \<Rightarrow> string \<Rightarrow> error + nameData" where
  "ex_lookup_apps a n =
     Inr \<lparr>nd_error = None, nd_profileUrl = ''https://hub.example/alice/profile.json'',
          nd_profile = Some \<lparr>others = Map.empty, apps = Some a\<rparr>\<rparr>"

definition ex_lookup_profile :: "profile \<Rightarrow> string \<Rightarrow> error + nameData" where
  "ex_lookup_profile p n =
     Inr \<lparr>nd_error = None, nd_profileUrl = ''https://hub.example/alice/profile.json'',
          nd_profile = Some p\<rparr>"

definition ex_lookup_fails :: "string \<Rightarrow> error + nameData" where
  "ex_lookup_fails n = Inl (Error ''not found'')"

text \<open>An entry that starts with the expected prefix and is longer, and one of another hub.\<close>

definition ex_apps_longer :: "string \<rightharpoonup> string" where
  "ex_apps_longer = [''https://app.example'' \<mapsto> ''https://hub.example/1App/old/'']"

definition ex_apps_foreign :: "string \<rightharpoonup> string" where
  "ex_apps_foreign = [''https://app.example'' \<mapsto> ''https://other.example/1Old/'']"

text \<open>
  A seed whose indices 0 and 1 own the names \<^verbatim>\<open>alice.id\<close> and \<^verbatim>\<open>bob.id\<close>, and a registry
  where the lookup of \<^verbatim>\<open>alice.id\<close> is rejected and that of \<^verbatim>\<open>bob.id\<close> resolves.
\<close>

definition ex_getOwnerKeyInfo :: "string \<Rightarrow> nat \<Rightarrow> ownerKeyInfo" where
  "ex_getOwnerKeyInfo mnemonic i =
     (if i = 0 then \<lparr>ok_idAddress = ''ID-1Alice'', ok_privateKey = ''keyA''\<rparr>
      else if i = 1 then \<lparr>ok_idAddress = ''ID-1Bob'', ok_privateKey = ''keyB''\<rparr>
      else \<lparr>ok_idAddress = ''ID-1Next'', ok_privateKey = ''keyN''\<rparr>)"

definition ex_getNamesOwned :: "string \<Rightarrow> error + string list" where
  "ex_getNamesOwned addr =
     (if addr = ''1Alice'' then Inr [''alice.id'']
      else if addr = ''1Bob'' then Inr [''bob.id'']
      else Inr [])"

definition ex_alwaysOwned :: "string \<Rightarrow> error + string list" where
  "ex_alwaysOwned addr = Inr [''name.id'']"

definition ex_bob_profile :: profile where
  "ex_bob_profile = \<lparr>others = [''name'' \<mapsto> JStr ''Bob''], apps = Some Map.empty\<rparr>"

definition ex_nameLookup :: "string \<Rightarrow> error + nameData" where
  "ex_nameLookup n =
     (if n = ''bob.id'' then
        Inr \<lparr>nd_error = None, nd_profileUrl = ''https://hub.example/bob/profile.json'',
             nd_profile = Some ex_bob_profile\<rparr>
      else Inl (Error ''lookup failed''))"

text \<open>
  A broker whose collaborators accept one outer token, which decrypts to one credential
  for \<^verbatim>\<open>alice.id\<close> asking for \<^verbatim>\<open>store_write\<close>; the upload resolves to \<open>upl\<close>. The
  application key information is made of the first four letters of the mnemonic, the
  application key is that information, and the hub accepts the key of a mnemonic that
  begins with \<^verbatim>\<open>seed\<close> and no other.
\<close>

definition ex_handshake :: handshake where
  "ex_handshake =
     \<lparr>md_id = ex_alice, md_profileUrl = ''https://hub.example/alice/profile.json'',
      md_appOrigin = ''https://app.example'', md_redirect_uri = ''https://app.example/cb'',
      md_scopes = [''store_write''], md_salt = ''00112233445566778899aabbccddeeff''\<rparr>"

definition ex_broker :: "uploadResult \<Rightarrow> string broker" where
  "ex_broker upl =
     \<lparr>authTransitKey = ''transit-key'',
      authTransitPubkey = ''transit-pub'',
      blockstackAPIUrl = ''https://core.example'',
      tokenVerify = (\<lambda>alg pub tok. pub = ''transit-pub'' \<and> tok = ''outer-token''),
      tokenSign = (\<lambda>alg key p. ''signed-by-'' @ key),
      decodeToken = (\<lambda>tok.
        if tok = ''outer-token'' then
          \<lparr>json = Some ''ciphertext'', metadata = NoMetadata, claims = Map.empty\<rparr>
        else
          \<lparr>json = None, metadata = HandshakeMetadata ex_handshake,
           claims = [''username'' \<mapsto> JStr ''alice.id'']\<rparr>),
      encryptContent = (\<lambda>content pub. ''ciphertext''),
      decryptContent = (\<lambda>content key.
        if content = ''ciphertext'' \<and> key = ''transit-key'' then Inr ''inner-token''
        else Inl (Error ''decrypt failed'')),
      makeAuthResponse = (\<lambda>key username url appKey transitKey hub api assoc. ''tmp-token''),
      makeAssociationToken = (\<lambda>appKey key. ''association''),
      verifyAuthResponse = (\<lambda>tok url. Inr (tok = ''inner-token'')),
      getApplicationKeyInfo = (\<lambda>mnemonic addr orig i. ''app-key-of-'' @ take 4 mnemonic),
      getGaiaAddressFromProfile = (\<lambda>p orig. Inl (Error ''no address'')),
      extractAppKey = (\<lambda>info addr. Inr info),
      gaiaConnect = (\<lambda>hub key.
        if key = ''app-key-of-seed'' then Inr ex_config else Inl (Error ''not authorized'')),
      nameLookup = ex_lookup_fails,
      makeProfileJWT = (\<lambda>p key. ''profile-jwt''),
      gaiaUploadProfileAll = (\<lambda>urls jwt key n. upl),
      updateQueryStringParameter = (\<lambda>uri k v. uri @ ''?'' @ k @ ''='' @ v)\<rparr>"

definition ex_signin :: signin where
  "ex_signin =
     \<lparr>si_id = ex_alice, si_appOrigin = ''https://app.example'',
      si_redirectUri = ''https://app.example/cb'', si_scopes = [''store_write''],
      si_authResponse = ''signed-by-keyA'', si_appHubConfig = ex_config\<rparr>"

definition ex_new_profile :: profile where
  "ex_new_profile =
     \<lparr>others = [''type'' \<mapsto> JStr ''@Person'', ''account'' \<mapsto> JArr []],
      apps = Some [''https://app.example'' \<mapsto> ''https://hub.example/1App/'']\<rparr>"

definition ex_upload_failed :: uploadResult where
  "ex_upload_failed = \<lparr>dataUrls = None, upload_error = Some ''hub unreachable''\<rparr>"

definition ex_upload_done :: uploadResult where
  "ex_upload_done =
     \<lparr>dataUrls = Some [''https://hub.example/alice/profile.json''], upload_error = None\<rparr>"

text \<open>
  The primitives at one run of the backup: the values of PBKDF2 with HMAC-SHA512, of
  AES-128-CBC, of HMAC-SHA256 and of SHA-256 for the mnemonic, salt and passwords below.
  Deciphering under the keys of the password \<^verbatim>\<open>wrong\<close> ends in padding that is not valid,
  which \<^verbatim>\<open>decipher.final()\<close> reports. The text of the legacy algorithm's error is a
  stand-in. The generator yields the bytes 00, 01, 02 and so on, so that the salt of the
  run is \<open>ex_salt\<close>.
\<close>

definition ex_mnemonic :: string where
  "ex_mnemonic = ''legal winner thank year wave sausage worth useful legal winner thank yellow''"

definition ex_entropy :: string where
  "ex_entropy = ''7f7f7f7f7f7f7f7f7f7f7f7f7f7f7f7f''"

definition ex_salt :: buffer where
  "ex_salt =
     [0x00, 0x01, 0x02, 0x03, 0x04, 0x05, 0x06, 0x07, 0x08, 0x09, 0x0a, 0x0b, 0x0c, 0x0d, 0x0e, 0x0f]"

definition ex_keys_correct :: buffer where
  "ex_keys_correct =
     [0x0b, 0x27, 0x5f, 0xa7, 0x5c, 0xfd, 0x47, 0x08, 0x45, 0x6d, 0x90, 0x65, 0x50, 0xf1, 0x84, 0x51,
      0xb9, 0xbd, 0xd1, 0x86, 0x08, 0xcc, 0xb9, 0x03, 0x10, 0xe8, 0xae, 0xfe, 0x5f, 0x19, 0x90, 0x55,
      0x9d, 0xbe, 0x2f, 0x68, 0x2c, 0xcf, 0x06, 0xa3, 0x33, 0x8a, 0x4d, 0x82, 0x7c, 0x58, 0xa6, 0x49]"

definition ex_keys_wrong :: buffer where
  "ex_keys_wrong =
     [0x71, 0xff, 0xb4, 0xbe, 0x9a, 0x42, 0xf7, 0x15, 0xf6, 0xe7, 0x82, 0x2d, 0x77, 0xcc, 0xd6, 0x47,
      0x8e, 0xcc, 0xc5, 0x42, 0x12, 0xc0, 0x37, 0x64, 0xc4, 0x10, 0x16, 0x6c, 0x1c, 0x6b, 0x3e, 0x44,
      0x46, 0x91, 0xa5, 0x73, 0x09, 0x03, 0x1e, 0xf6, 0xac, 0x4f, 0xa1, 0x26, 0x68, 0xd7, 0x87, 0x86]"

definition ex_cipherText :: buffer where
  "ex_cipherText =
     [0x60, 0xb1, 0x22, 0x16, 0x78, 0x6d, 0xf3, 0xdd, 0x13, 0xc7, 0x7a, 0xfc, 0xc3, 0x15, 0x23, 0x82,
      0x46, 0xdf, 0x4c, 0x03, 0x17, 0xc5, 0x9c, 0x5f, 0xa3, 0xcf, 0x29, 0xc5, 0xea, 0x5d, 0xd8, 0x95]"

definition ex_hmac :: buffer where
  "ex_hmac =
     [0xbf, 0xfe, 0xcb, 0xa3, 0xc1, 0x93, 0x35, 0xad, 0x44, 0x39, 0x9a, 0xdb, 0x4d, 0x07, 0x05, 0x60,
      0x56, 0x88, 0x4c, 0x15, 0x94, 0xcb, 0x1d, 0x78, 0x91, 0x5c, 0x50, 0xdd, 0x76, 0x82, 0xeb, 0x57]"

definition ex_hmac_hash :: buffer where
  "ex_hmac_hash =
     [0x1a, 0xb5, 0xd9, 0xbf, 0x5c, 0x47, 0x3f, 0x8e, 0x00, 0x22, 0xf1, 0x68, 0x6e, 0x0d, 0x89, 0x17,
      0x3b, 0x9f, 0x28, 0x95, 0x34, 0xc1, 0x2b, 0xba, 0xaa, 0xc3, 0x8f, 0xed, 0x05, 0x79, 0xd8, 0x89]"

definition ex_primitives :: primitives where
  "ex_primitives =
     \<lparr>randomByte = (\<lambda>i. of_nat i),
      validateMnemonic = (\<lambda>m. m = ex_mnemonic),
      mnemonicToEntropy = (\<lambda>m.
        if m = ex_mnemonic then Inr ex_entropy else Inl (Error ''Invalid mnemonic'')),
      entropyToMnemonic = (\<lambda>e.
        if e = ex_entropy then Inr ex_mnemonic else Inl (Error ''Invalid entropy'')),
      pbkdf2Sync = (\<lambda>password salt iterations keylen digest.
        if password = ''correct horse'' then ex_keys_correct
        else if password = ''wrong'' then ex_keys_wrong
        else replicate keylen 0),
      cipheriv = (\<lambda>algorithm key iv plain. ex_cipherText),
      decipheriv = (\<lambda>algorithm key iv cipherText.
        if key = take 16 ex_keys_correct then Inr (fromHex ex_entropy)
        else Inl (Error
          ''error:06065064:digital envelope routines:EVP_DecryptFinal_ex:bad decrypt'')),
      hmac = (\<lambda>algorithm key payload.
        if key = take 16 (drop 16 ex_keys_correct) then ex_hmac else replicate 32 0),
      hash = (\<lambda>algorithm payload.
        if payload = ex_hmac then ex_hmac_hash else replicate 32 0),
      triplesecDecrypt = (\<lambda>password payload. Inl (Error ''not a legacy backup''))\<rparr>"

text \<open>The backup of \<open>ex_mnemonic\<close> under the password \<^verbatim>\<open>correct horse\<close>.\<close>

definition ex_backup :: buffer where
  "ex_backup = ex_salt @ ex_hmac @ ex_cipherText"


section \<open>Properties of profile reconciliation\<close>

lemma gaiaPrefix_truthy: "truthy (gaiaPrefix cfg)"
  by (simp add: truthy_def gaiaPrefix_def)

lemma reconcileProfile_overrides:
  assumes "nd_profile d = Some p" and "apps p = Some a" and "a ''hasOwnProperty'' = None"
      and "a appOrigin = Some url" and "\<not> prefix (gaiaPrefix cfg) url"
  shows "reconcileProfile (Some d) appOrigin cfg =
           Inr (p\<lparr>apps := Some (a(appOrigin \<mapsto> gaiaPrefix cfg))\<rparr>, True)"
  using assms by (simp add: reconcileProfile_def hasOwnProperty_def assignProperty_def Let_def)

lemma reconcileProfile_keeps:
  assumes "nd_profile d = Some p" and "apps p = Some a" and "a ''hasOwnProperty'' = None"
      and "a appOrigin = Some url" and "truthy url" and "prefix (gaiaPrefix cfg) url"
  shows "reconcileProfile (Some d) appOrigin cfg = Inr (p, False)"
  using assms by (simp add: reconcileProfile_def hasOwnProperty_def Let_def)

lemma reconcileProfile_result:
  assumes "reconcileProfile pd appOrigin cfg = Inr (p', c)"
      and "appOrigin \<noteq> ''__proto__''" and "appOrigin \<noteq> ''hasOwnProperty''"
  shows "\<exists>a url. apps p' = Some a \<and> a ''hasOwnProperty'' = None \<and> a appOrigin = Some url \<and>
                 truthy url \<and> prefix (gaiaPrefix cfg) url"
  using assms gaiaPrefix_truthy[of cfg]
  by (auto simp add: reconcileProfile_def hasOwnProperty_def assignProperty_def Let_def
      split: option.splits if_splits prod.splits)

text \<open>
  C1, as amended. When the \<^verbatim>\<open>apps\<close> object of the looked-up profile has no own property
  named \<^verbatim>\<open>hasOwnProperty\<close> and its \<^verbatim>\<open>apps[origin]\<close> entry does not start with the expected
  prefix \<^verbatim>\<open>url_prefix + address + '/'\<close>, reconciliation overwrites the entry with exactly
  that prefix, leaves the rest of the profile as it was, and reports \<^verbatim>\<open>changed = true\<close>.
\<close>

theorem updateProfileApps_overrides_other_prefix:
  assumes "lookup (name ident) = Inr d"
      and "nd_profile d = Some p"
      and "apps p = Some a"
      and "a ''hasOwnProperty'' = None"
      and "a appOrigin = Some url"
      and "\<not> prefix (gaiaPrefix cfg) url"
  shows "updateProfileApps lookup ident appOrigin cfg =
           Inr (p\<lparr>apps := Some (a(appOrigin \<mapsto> gaiaPrefix cfg))\<rparr>, True)"
  using assms(1) reconcileProfile_overrides[OF assms(2-6)]
  by (simp add: updateProfileApps_def)

theorem updateProfileApps_overrides_other_prefix_witness:
  "ex_lookup_apps ex_apps_foreign (name ex_alice) =
     Inr \<lparr>nd_error = None, nd_profileUrl = ''https://hub.example/alice/profile.json'',
          nd_profile = Some \<lparr>others = Map.empty, apps = Some ex_apps_foreign\<rparr>\<rparr> \<and>
   ex_apps_foreign ''hasOwnProperty'' = None \<and>
   ex_apps_foreign ''https://app.example'' = Some ''https://other.example/1Old/'' \<and>
   \<not> prefix (gaiaPrefix ex_config) ''https://other.example/1Old/'' \<and>
   updateProfileApps (ex_lookup_apps ex_apps_foreign) ex_alice ''https://app.example'' ex_config =
     Inr (\<lparr>others = Map.empty,
           apps = Some (ex_apps_foreign(''https://app.example'' \<mapsto> ''https://hub.example/1App/''))\<rparr>,
          True)"
proof -
  have l: "ex_lookup_apps ex_apps_foreign (name ex_alice) =
     Inr \<lparr>nd_error = None, nd_profileUrl = ''https://hub.example/alice/profile.json'',
          nd_profile = Some \<lparr>others = Map.empty, apps = Some ex_apps_foreign\<rparr>\<rparr>"
    by (simp add: ex_lookup_apps_def)
  have h: "ex_apps_foreign ''hasOwnProperty'' = None"
    by (simp add: ex_apps_foreign_def)
  have e: "ex_apps_foreign ''https://app.example'' = Some ''https://other.example/1Old/''"
    by (simp add: ex_apps_foreign_def)
  have n: "\<not> prefix (gaiaPrefix ex_config) ''https://other.example/1Old/''"
    by (simp add: gaiaPrefix_def ex_config_def)
  have g: "gaiaPrefix ex_config = ''https://hub.example/1App/''"
    by (simp add: gaiaPrefix_def ex_config_def)
  show ?thesis
    using updateProfileApps_overrides_other_prefix
            [where lookup = "ex_lookup_apps ex_apps_foreign" and ident = ex_alice
               and p = "\<lparr>others = Map.empty, apps = Some ex_apps_foreign\<rparr>"
               and a = ex_apps_foreign and appOrigin = "''https://app.example''"
               and url = "''https://other.example/1Old/''" and cfg = ex_config, OF l]
          l h e n g
    by simp
qed

text \<open>
  C1 as stated fails: an entry that differs from the expected prefix but starts with it
  is left as it is, and nothing is reported as changed.
\<close>

theorem updateProfileApps_keeps_longer_url:
  "ex_apps_longer ''https://app.example'' = Some ''https://hub.example/1App/old/'' \<and>
   ''https://hub.example/1App/old/'' \<noteq> gaiaPrefix ex_config \<and>
   updateProfileApps (ex_lookup_apps ex_apps_longer) ex_alice ''https://app.example'' ex_config =
     Inr (\<lparr>others = Map.empty, apps = Some ex_apps_longer\<rparr>, False)"
  by (simp add: updateProfileApps_def reconcileProfile_def hasOwnProperty_def ex_lookup_apps_def
      ex_apps_longer_def gaiaPrefix_def ex_config_def truthy_def Let_def)

text \<open>
  Reconciliation is idempotent at every origin but \<^verbatim>\<open>__proto__\<close> and \<^verbatim>\<open>hasOwnProperty\<close>:
  whatever the first lookup yielded, when the first application returns and the registry
  then serves the profile it returned, the second application returns that same profile
  and \<^verbatim>\<open>changed = false\<close>.
\<close>

lemma updateProfileApps_idempotent_other_origins:
  assumes "updateProfileApps lookup ident appOrigin cfg = Inr (p', c)"
      and "appOrigin \<noteq> ''__proto__''" and "appOrigin \<noteq> ''hasOwnProperty''"
      and "lookup' (name ident) = Inr d'"
      and "nd_profile d' = Some p'"
  shows "updateProfileApps lookup' ident appOrigin cfg = Inr (p', False)"
proof -
  from assms(1) obtain pd where "reconcileProfile pd appOrigin cfg = Inr (p', c)"
    by (auto simp: updateProfileApps_def Let_def)
  from reconcileProfile_result[OF this assms(2,3)] obtain a url where
    "apps p' = Some a" "a ''hasOwnProperty'' = None" "a appOrigin = Some url" "truthy url"
    "prefix (gaiaPrefix cfg) url"
    by blast
  from reconcileProfile_keeps[OF assms(5) this] show ?thesis
    using assms(4) by (simp add: updateProfileApps_def)
qed

lemma updateProfileApps_idempotent_example:
  "updateProfileApps ex_lookup_fails ex_alice ''https://app.example'' ex_config =
     Inr (ex_new_profile, True) \<and>
   updateProfileApps (ex_lookup_profile ex_new_profile) ex_alice ''https://app.example'' ex_config =
     Inr (ex_new_profile, False)"
proof -
  have first: "updateProfileApps ex_lookup_fails ex_alice ''https://app.example'' ex_config =
     Inr (ex_new_profile, True)"
    by (simp add: updateProfileApps_def reconcileProfile_def hasOwnProperty_def
        assignProperty_def ex_lookup_fails_def default_profile_def ex_new_profile_def
        gaiaPrefix_def ex_config_def Let_def)
  have l: "ex_lookup_profile ex_new_profile (name ex_alice) =
     Inr \<lparr>nd_error = None, nd_profileUrl = ''https://hub.example/alice/profile.json'',
          nd_profile = Some ex_new_profile\<rparr>"
    by (simp add: ex_lookup_profile_def)
  show ?thesis
    using updateProfileApps_idempotent_other_origins
            [where lookup = ex_lookup_fails and lookup' = "ex_lookup_profile ex_new_profile"
               and ident = ex_alice and p' = ex_new_profile, OF first _ _ l]
          first
    by simp
qed

text \<open>
  C4 fails on the code at two origins. At \<^verbatim>\<open>__proto__\<close> the assignment stores nothing: the
  first application returns the instantiated profile with \<^verbatim>\<open>changed = true\<close>, and the second
  application, given that profile, reports \<^verbatim>\<open>changed = true\<close> again. At \<^verbatim>\<open>hasOwnProperty\<close>
  the first application stores an own property of that name, and the second application,
  given that profile, throws a \<^verbatim>\<open>TypeError\<close>.
\<close>

theorem updateProfileApps_second_run_at_proto:
  "updateProfileApps ex_lookup_fails ex_alice ''__proto__'' ex_config =
     Inr (default_profile, True) \<and>
   updateProfileApps (ex_lookup_profile default_profile) ex_alice ''__proto__'' ex_config =
     Inr (default_profile, True) \<and>
   updateProfileApps ex_lookup_fails ex_alice ''hasOwnProperty'' ex_config =
     Inr (default_profile\<lparr>apps := Some [''hasOwnProperty'' \<mapsto> ''https://hub.example/1App/'']\<rparr>,
          True) \<and>
   updateProfileApps
     (ex_lookup_profile
        (default_profile\<lparr>apps := Some [''hasOwnProperty'' \<mapsto> ''https://hub.example/1App/'']\<rparr>))
     ex_alice ''hasOwnProperty'' ex_config =
     Inl (Error ''TypeError: profile.apps.hasOwnProperty is not a function'')"
proof -
  have a: "updateProfileApps ex_lookup_fails ex_alice ''__proto__'' ex_config =
     Inr (default_profile, True)"
    by (simp add: updateProfileApps_def reconcileProfile_def hasOwnProperty_def
        assignProperty_def ex_lookup_fails_def default_profile_def Let_def)
  have b: "updateProfileApps (ex_lookup_profile default_profile) ex_alice ''__proto__'' ex_config =
     Inr (default_profile, True)"
    by (simp add: updateProfileApps_def reconcileProfile_def hasOwnProperty_def
        assignProperty_def ex_lookup_profile_def default_profile_def Let_def)
  have c: "updateProfileApps ex_lookup_fails ex_alice ''hasOwnProperty'' ex_config =
     Inr (default_profile\<lparr>apps := Some [''hasOwnProperty'' \<mapsto> ''https://hub.example/1App/'']\<rparr>,
          True)"
    by (simp add: updateProfileApps_def reconcileProfile_def hasOwnProperty_def
        assignProperty_def ex_lookup_fails_def default_profile_def gaiaPrefix_def ex_config_def
        Let_def)
  have d: "updateProfileApps
     (ex_lookup_profile
        (default_profile\<lparr>apps := Some [''hasOwnProperty'' \<mapsto> ''https://hub.example/1App/'']\<rparr>))
     ex_alice ''hasOwnProperty'' ex_config =
     Inl (Error ''TypeError: profile.apps.hasOwnProperty is not a function'')"
    by (simp add: updateProfileApps_def reconcileProfile_def hasOwnProperty_def
        ex_lookup_profile_def default_profile_def Let_def)
  from a b c d show ?thesis by (intro conjI)
qed

section \<open>Properties of identity discovery\<close>

lemma loadNamedIdentitiesLoop_too_many:
  assumes "\<forall>i. idx \<le> i \<and> i \<le> 65536 \<longrightarrow> ownsNames K R m i"
  shows "loadNamedIdentitiesLoop K R m idx ids = Inl (Error ''Too many names'')"
  using assms
proof (induction K R m idx ids rule: loadNamedIdentitiesLoop.induct)
  case (1 K R m idx ids)
  show ?case
  proof (cases "idx > 65536")
    case True
    then show ?thesis by (subst loadNamedIdentitiesLoop.simps) (simp del: loadNamedIdentitiesLoop.simps)
  next
    case False
    then have "ownsNames K R m idx" using "1.prems" by simp
    then obtain nl where nl: "R (drop 3 (ok_idAddress (K m idx))) = Inr nl" "nl \<noteq> []"
      by (auto simp: ownsNames_def split: sum.splits)
    have "loadNamedIdentitiesLoop K R m (idx + 1)
            (ids @ map (\<lambda>n. \<lparr>name = n, idAddress = ok_idAddress (K m idx),
                              privateKey = ok_privateKey (K m idx), index = idx,
                              profile = Some empty_object, profileUrl = []\<rparr>) nl)
          = Inl (Error ''Too many names'')"
      using "1.IH"[OF False nl(1)] nl(2) "1.prems"
      by (simp del: loadNamedIdentitiesLoop.simps)
    then show ?thesis
      using False nl
      by (subst loadNamedIdentitiesLoop.simps) (simp del: loadNamedIdentitiesLoop.simps)
  qed
qed

lemma namesOwnedQueries_all:
  assumes "\<forall>i. idx \<le> i \<and> i \<le> 65536 \<longrightarrow> ownsNames K R m i"
  shows "namesOwnedQueries K R m idx =
           map (\<lambda>i. drop 3 (ok_idAddress (K m i))) [idx..<65537]"
  using assms
proof (induction K R m idx rule: namesOwnedQueries.induct)
  case (1 K R m idx)
  show ?case
  proof (cases "idx > 65536")
    case True
    then show ?thesis by (subst namesOwnedQueries.simps) (simp del: namesOwnedQueries.simps)
  next
    case False
    then have "ownsNames K R m idx" using "1.prems" by simp
    then obtain nl where nl: "R (drop 3 (ok_idAddress (K m idx))) = Inr nl" "nl \<noteq> []"
      by (auto simp: ownsNames_def split: sum.splits)
    have "namesOwnedQueries K R m (idx + 1) =
            map (\<lambda>i. drop 3 (ok_idAddress (K m i))) [idx + 1..<65537]"
      using "1.IH"[OF False nl(1)] nl(2) "1.prems"
      by (simp del: namesOwnedQueries.simps)
    moreover have "[idx..<65537] = idx # [idx + 1..<65537]"
      using False by (simp add: upt_conv_Cons)
    ultimately show ?thesis
      using False nl
      by (subst namesOwnedQueries.simps) (simp del: namesOwnedQueries.simps)
  qed
qed

lemma ex_alwaysOwned_owns: "ownsNames ex_getOwnerKeyInfo ex_alwaysOwned m i"
  by (simp add: ownsNames_def ex_alwaysOwned_def)

text \<open>
  C5, as amended. When every index from 0 to 65536 owns at least one name, discovery does
  not loop forever: it ends with the error \<^verbatim>\<open>Too many names\<close>, raised at index 65537 after
  65537 iterations, one registry query for each of the indices 0 to 65536.
\<close>

theorem loadNamedIdentities_too_many:
  assumes "\<forall>i. i \<le> 65536 \<longrightarrow> ownsNames getOwnerKeyInfo getNamesOwned mnemonic i"
  shows "loadNamedIdentities getOwnerKeyInfo getNamesOwned mnemonic =
           Inl (Error ''Too many names'') \<and>
         namesOwnedQueries getOwnerKeyInfo getNamesOwned mnemonic 0 =
           map (\<lambda>i. drop 3 (ok_idAddress (getOwnerKeyInfo mnemonic i))) [0..<65537] \<and>
         length (namesOwnedQueries getOwnerKeyInfo getNamesOwned mnemonic 0) = 65537"
proof -
  have all: "\<forall>i. 0 \<le> i \<and> i \<le> 65536 \<longrightarrow> ownsNames getOwnerKeyInfo getNamesOwned mnemonic i"
    using assms by simp
  have q: "namesOwnedQueries getOwnerKeyInfo getNamesOwned mnemonic 0 =
             map (\<lambda>i. drop 3 (ok_idAddress (getOwnerKeyInfo mnemonic i))) [0..<65537]"
    by (rule namesOwnedQueries_all[OF all])
  have "loadNamedIdentities getOwnerKeyInfo getNamesOwned mnemonic =
          Inl (Error ''Too many names'')"
    unfolding loadNamedIdentities_def by (rule loadNamedIdentitiesLoop_too_many[OF all])
  moreover have "length (namesOwnedQueries getOwnerKeyInfo getNamesOwned mnemonic 0) = 65537"
    by (simp only: q length_map length_upt)
  ultimately show ?thesis using q by simp
qed

theorem loadNamedIdentities_too_many_witness:
  "(\<forall>i. ownsNames ex_getOwnerKeyInfo ex_alwaysOwned ''seed'' i) \<and>
   loadNamedIdentities ex_getOwnerKeyInfo ex_alwaysOwned ''seed'' =
     Inl (Error ''Too many names'') \<and>
   namesOwnedQueries ex_getOwnerKeyInfo ex_alwaysOwned ''seed'' 0 =
     map (\<lambda>i. drop 3 (ok_idAddress (ex_getOwnerKeyInfo ''seed'' i))) [0..<65537] \<and>
   length (namesOwnedQueries ex_getOwnerKeyInfo ex_alwaysOwned ''seed'' 0) = 65537"
  using loadNamedIdentities_too_many
          [of ex_getOwnerKeyInfo ex_alwaysOwned "''seed''"]
        ex_alwaysOwned_owns
  by blast

text \<open>
  C5 as stated fails in its count: with a registry in which every index owns a name, the
  loop has queried the registry 65537 times, not 65536 times, when it raises the error.
\<close>

theorem loadNamedIdentities_iterations:
  "loadNamedIdentities ex_getOwnerKeyInfo ex_alwaysOwned ''seed'' =
     Inl (Error ''Too many names'') \<and>
   length (namesOwnedQueries ex_getOwnerKeyInfo ex_alwaysOwned ''seed'' 0) = 65537 \<and>
   length (namesOwnedQueries ex_getOwnerKeyInfo ex_alwaysOwned ''seed'' 0) \<noteq> 65536"
proof -
  have all: "\<forall>i. 0 \<le> i \<and> i \<le> 65536 \<longrightarrow> ownsNames ex_getOwnerKeyInfo ex_alwaysOwned ''seed'' i"
    using ex_alwaysOwned_owns by simp
  have "length (namesOwnedQueries ex_getOwnerKeyInfo ex_alwaysOwned ''seed'' 0) = 65537"
    by (simp only: namesOwnedQueries_all[OF all] length_map length_upt)
  moreover have "loadNamedIdentities ex_getOwnerKeyInfo ex_alwaysOwned ''seed'' =
     Inl (Error ''Too many names'')"
    unfolding loadNamedIdentities_def by (rule loadNamedIdentitiesLoop_too_many[OF all])
  ultimately show ?thesis by simp
qed

lemma attachNameDatas_ok:
  "i + length ds \<le> length ids \<Longrightarrow>
   \<exists>ids'. attachNameDatas i ds ids = Inr ids' \<and> length ids' = length ids \<and>
          map name ids' = map name ids \<and> map index ids' = map index ids \<and>
          map idAddress ids' = map idAddress ids \<and> map privateKey ids' = map privateKey ids"
proof (induction i ds ids rule: attachNameDatas.induct)
  case (1 i identities)
  then show ?case by simp
next
  case (2 i d ds identities)
  let ?x = "if hasError d then (identities ! i)\<lparr>profileUrl := []\<rparr>
            else (identities ! i)\<lparr>profileUrl := nd_profileUrl d, profile := nd_profile d\<rparr>"
  from "2.prems" have lt: "i < length identities" by simp
  have same: "name ?x = name (identities ! i)" "index ?x = index (identities ! i)"
    "idAddress ?x = idAddress (identities ! i)" "privateKey ?x = privateKey (identities ! i)"
    by simp_all
  have keep: "map name (identities[i := ?x]) = map name identities"
    "map index (identities[i := ?x]) = map index identities"
    "map idAddress (identities[i := ?x]) = map idAddress identities"
    "map privateKey (identities[i := ?x]) = map privateKey identities"
    using lt same by (simp_all add: map_update list_update_same_conv)
  from "2.IH"[OF lt] "2.prems" obtain ids' where
    "attachNameDatas (Suc i) ds (identities[i := ?x]) = Inr ids'"
    "length ids' = length (identities[i := ?x])"
    "map name ids' = map name (identities[i := ?x])"
    "map index ids' = map index (identities[i := ?x])"
    "map idAddress ids' = map idAddress (identities[i := ?x])"
    "map privateKey ids' = map privateKey (identities[i := ?x])"
    by auto
  then show ?case using lt keep by simp
qed

lemma resolved_length:
  "length (map the (filter (\<lambda>p. p \<noteq> None) (map f ids))) \<le> length ids"
  by (metis length_filter_le length_map)

lemma filter_untruthy:
  "\<not> P a \<Longrightarrow> filter (\<lambda>x. \<not> P x) (filter P xs @ [a]) = [a]"
  by (induction xs) auto

lemma ex_loadNamedIdentities:
  "loadNamedIdentities ex_getOwnerKeyInfo ex_getNamesOwned ''seed'' =
     Inr [\<lparr>name = ''alice.id'', idAddress = ''ID-1Alice'', privateKey = ''keyA'', index = 0,
           profile = Some empty_object, profileUrl = []\<rparr>,
          \<lparr>name = ''bob.id'', idAddress = ''ID-1Bob'', privateKey = ''keyB'', index = 1,
           profile = Some empty_object, profileUrl = []\<rparr>]"
  by (simp add: loadNamedIdentities_def loadNamedIdentitiesLoop.simps ex_getOwnerKeyInfo_def
      ex_getNamesOwned_def)

text \<open>
  C3. When the loop has found the named identities \<open>ids\<close>, discovery returns those of them
  that ended with a profile URL, each still with its own name, address, key and index,
  followed by one anonymous identity: empty name, the empty profile \<^verbatim>\<open>{}\<close>, empty profile
  URL, and index \<open>length ids + 1\<close>, the count of named identities plus one. It is the only
  entry of the result without a profile URL.
\<close>

theorem getIdentityInfo_appends_anonymous:
  assumes "loadNamedIdentities getOwnerKeyInfo getNamesOwned mnemonic = Inr ids"
  shows "\<exists>identities.
           length identities = length ids \<and>
           map name identities = map name ids \<and>
           map index identities = map index ids \<and>
           getIdentityInfo getOwnerKeyInfo getNamesOwned lookup mnemonic =
             Inr (filter (\<lambda>ident. truthy (profileUrl ident)) identities @
                  [\<lparr>name = [],
                    idAddress = ok_idAddress (getOwnerKeyInfo mnemonic (length ids + 1)),
                    privateKey = ok_privateKey (getOwnerKeyInfo mnemonic (length ids + 1)),
                    index = length ids + 1,
                    profile = Some empty_object,
                    profileUrl = []\<rparr>]) \<and>
           filter (\<lambda>ident. \<not> truthy (profileUrl ident))
             (filter (\<lambda>ident. truthy (profileUrl ident)) identities @
              [\<lparr>name = [],
                idAddress = ok_idAddress (getOwnerKeyInfo mnemonic (length ids + 1)),
                privateKey = ok_privateKey (getOwnerKeyInfo mnemonic (length ids + 1)),
                index = length ids + 1,
                profile = Some empty_object,
                profileUrl = []\<rparr>]) =
             [\<lparr>name = [],
               idAddress = ok_idAddress (getOwnerKeyInfo mnemonic (length ids + 1)),
               privateKey = ok_privateKey (getOwnerKeyInfo mnemonic (length ids + 1)),
               index = length ids + 1,
               profile = Some empty_object,
               profileUrl = []\<rparr>]"
proof -
  let ?nd = "map the (filter (\<lambda>p. p \<noteq> None)
               (map (\<lambda>ident. case lookup (name ident) of Inl e \<Rightarrow> None | Inr d \<Rightarrow> Some d) ids))"
  let ?anon = "\<lparr>name = [],
                idAddress = ok_idAddress (getOwnerKeyInfo mnemonic (length ids + 1)),
                privateKey = ok_privateKey (getOwnerKeyInfo mnemonic (length ids + 1)),
                index = length ids + 1,
                profile = Some empty_object,
                profileUrl = []\<rparr>"
  have "0 + length ?nd \<le> length ids" using resolved_length by simp
  from attachNameDatas_ok[OF this] obtain ids' where ids':
    "attachNameDatas 0 ?nd ids = Inr ids'" "length ids' = length ids"
    "map name ids' = map name ids" "map index ids' = map index ids"
    by blast
  have res: "getIdentityInfo getOwnerKeyInfo getNamesOwned lookup mnemonic =
          Inr (filter (\<lambda>ident. truthy (profileUrl ident)) ids' @ [?anon])"
    using assms ids'(1,2) by (simp add: getIdentityInfo_def Let_def loadUnnamedIdentity_def)
  have "\<not> truthy (profileUrl ?anon)" by (simp add: truthy_def)
  from filter_untruthy[where P = "\<lambda>ident. truthy (profileUrl ident)", OF this]
  have one: "filter (\<lambda>ident. \<not> truthy (profileUrl ident))
               (filter (\<lambda>ident. truthy (profileUrl ident)) ids' @ [?anon]) = [?anon]" .
  show ?thesis
    using ids'(2,3,4) res one by blast
qed

theorem getIdentityInfo_appends_anonymous_witness:
  "loadNamedIdentities ex_getOwnerKeyInfo ex_getNamesOwned ''seed'' =
     Inr [\<lparr>name = ''alice.id'', idAddress = ''ID-1Alice'', privateKey = ''keyA'', index = 0,
           profile = Some empty_object, profileUrl = []\<rparr>,
          \<lparr>name = ''bob.id'', idAddress = ''ID-1Bob'', privateKey = ''keyB'', index = 1,
           profile = Some empty_object, profileUrl = []\<rparr>] \<and>
   (\<exists>kept.
      getIdentityInfo ex_getOwnerKeyInfo ex_getNamesOwned (ex_lookup_profile ex_bob_profile) ''seed'' =
        Inr (kept @
             [\<lparr>name = [], idAddress = ''ID-1Next'', privateKey = ''keyN'', index = 3,
               profile = Some empty_object, profileUrl = []\<rparr>]))"
proof -
  from getIdentityInfo_appends_anonymous
         [where lookup = "ex_lookup_profile ex_bob_profile", OF ex_loadNamedIdentities]
  obtain identities where
    "getIdentityInfo ex_getOwnerKeyInfo ex_getNamesOwned (ex_lookup_profile ex_bob_profile) ''seed'' =
       Inr (filter (\<lambda>ident. truthy (profileUrl ident)) identities @
            [\<lparr>name = [],
              idAddress = ok_idAddress (ex_getOwnerKeyInfo ''seed'' (length [ex_alice, ex_alice] + 1)),
              privateKey = ok_privateKey (ex_getOwnerKeyInfo ''seed'' (length [ex_alice, ex_alice] + 1)),
              index = length [ex_alice, ex_alice] + 1,
              profile = Some empty_object,
              profileUrl = []\<rparr>])"
    by auto
  then have "getIdentityInfo ex_getOwnerKeyInfo ex_getNamesOwned (ex_lookup_profile ex_bob_profile) ''seed'' =
       Inr (filter (\<lambda>ident. truthy (profileUrl ident)) identities @
            [\<lparr>name = [], idAddress = ''ID-1Next'', privateKey = ''keyN'', index = 3,
              profile = Some empty_object, profileUrl = []\<rparr>])"
    by (simp add: ex_getOwnerKeyInfo_def)
  then show ?thesis using ex_loadNamedIdentities by blast
qed

text \<open>
  C2 fails on the code. Index 0 owns \<^verbatim>\<open>alice.id\<close>, index 1 owns \<^verbatim>\<open>bob.id\<close>; the lookup of
  \<^verbatim>\<open>alice.id\<close> is rejected and that of \<^verbatim>\<open>bob.id\<close> resolves. The rejected lookup is
  filtered out before the results are walked by position, so the profile and profile URL
  of \<^verbatim>\<open>bob.id\<close> are attached to \<^verbatim>\<open>alice.id\<close>, and \<^verbatim>\<open>bob.id\<close> is dropped.
\<close>

theorem getIdentityInfo_rejected_lookup_shifts_profiles:
  "getIdentityInfo ex_getOwnerKeyInfo ex_getNamesOwned ex_nameLookup ''seed'' =
     Inr [\<lparr>name = ''alice.id'', idAddress = ''ID-1Alice'', privateKey = ''keyA'', index = 0,
           profile = Some ex_bob_profile,
           profileUrl = ''https://hub.example/bob/profile.json''\<rparr>,
          \<lparr>name = [], idAddress = ''ID-1Next'', privateKey = ''keyN'', index = 3,
           profile = Some empty_object, profileUrl = []\<rparr>]"
  by (simp add: getIdentityInfo_def ex_loadNamedIdentities ex_nameLookup_def Let_def hasError_def
      truthy_def loadUnnamedIdentity_def ex_getOwnerKeyInfo_def)

section \<open>Properties of the sign-in handler\<close>



lemma uploadFailed_iff: "uploadFailed r \<longleftrightarrow> (\<exists>e. upload_error r = Some e \<and> truthy e)"
  by (auto simp: uploadFailed_def split: option.splits)



lemma handleSignIn_reached:
  assumes "truthy tok"
      and "signInDecrypt env tok = Inr verified"
      and "signInResign env mnemonic appGaiaHub verified = Inr st"
      and "updateProfileApps (nameLookup env) (si_id st) (si_appOrigin st) (si_appHubConfig st)
             = Inr (prof, changed)"
  shows "handleSignIn env mnemonic appGaiaHub profileGaiaHub (Some tok) =
           (case signInRedirect env st
                   (snd (signInUpload env profileGaiaHub st (prof, changed))) of
              Inl f \<Rightarrow> signInCatch f
            | Inr r \<Rightarrow> r,
            fst (signInUpload env profileGaiaHub st (prof, changed)))"
  using assms
  by (simp add: handleSignIn_def Let_def split: prod.splits sum.splits)



lemma signInResign_Inr:
  assumes "signInResign env mnemonic appGaiaHub (authResponse, valid) = Inr st"
      and "metadata (decodeToken env authResponse) = HandshakeMetadata md"
  shows "valid \<and> si_id st = md_id md \<and> si_appOrigin st = md_appOrigin md \<and>
         si_redirectUri st = md_redirect_uri md \<and> si_scopes st = md_scopes md \<and>
         si_authResponse st =
           tokenSign env ''ES256K'' (privateKey (md_id md))
             ((decodeToken env authResponse)\<lparr>metadata := ProfileUrlOnly (md_profileUrl md)\<rparr>) \<and>
         (\<exists>appPrivateKey.
            getAppPrivateKey env mnemonic (md_id md) (md_appOrigin md) = Inr appPrivateKey \<and>
            gaiaConnect env appGaiaHub appPrivateKey = Inr (si_appHubConfig st))"
  using assms
  by (auto simp: signInResign_def Let_def split: if_splits sum.splits)

lemma getAppPrivateKey_mnemonic:
  assumes "\<forall>a orig i. getApplicationKeyInfo env m2 a orig i = getApplicationKeyInfo env m1 a orig i"
  shows "getAppPrivateKey env m2 ident origin = getAppPrivateKey env m1 ident origin"
  using assms by (simp add: getAppPrivateKey_def)

lemma signInResign_mnemonic:
  assumes "\<forall>a orig i. getApplicationKeyInfo env m2 a orig i = getApplicationKeyInfo env m1 a orig i"
  shows "signInResign env m2 hub v = signInResign env m1 hub v"
proof -
  have "getAppPrivateKey env m2 = getAppPrivateKey env m1"
    using getAppPrivateKey_mnemonic[OF assms] by (intro ext)
  then show ?thesis
    by (cases v) (simp add: signInResign_def Let_def split: metadata.splits)
qed

text \<open>The scenario, step by step.\<close>

lemma ex_signInDecrypt:
  "signInDecrypt (ex_broker upl) ''outer-token'' = Inr (''inner-token'', True)"
  by (simp add: signInDecrypt_def ex_broker_def Let_def)

lemma ex_metadata:
  "metadata (decodeToken (ex_broker upl) ''inner-token'') = HandshakeMetadata ex_handshake"
  by (simp add: ex_broker_def)

lemma ex_getAppPrivateKey:
  "getAppPrivateKey (ex_broker upl) ''seed'' ex_alice ''https://app.example'' =
     Inr ''app-key-of-seed''"
  by (simp add: getAppPrivateKey_def ex_broker_def Let_def)

lemma ex_signInResign:
  "signInResign (ex_broker upl) ''seed'' ''https://apphub.example'' (''inner-token'', True) =
     Inr ex_signin"
proof -
  have fields: "md_id ex_handshake = ex_alice" "md_appOrigin ex_handshake = ''https://app.example''"
    "md_redirect_uri ex_handshake = ''https://app.example/cb''"
    "md_scopes ex_handshake = [''store_write'']"
    by (simp_all add: ex_handshake_def)
  have hub: "\<And>h. gaiaConnect (ex_broker upl) h ''app-key-of-seed'' = Inr ex_config"
    by (simp add: ex_broker_def)
  have sign: "\<And>a k p. tokenSign (ex_broker upl) a k p = ''signed-by-'' @ k"
    by (simp add: ex_broker_def)
  have key: "privateKey ex_alice = ''keyA''" by (simp add: ex_alice_def)
  show ?thesis
    by (simp add: signInResign_def ex_metadata fields ex_getAppPrivateKey hub sign key
        ex_signin_def Let_def)
qed

lemma ex_updateProfileApps:
  "updateProfileApps (nameLookup (ex_broker upl)) (si_id ex_signin) (si_appOrigin ex_signin)
     (si_appHubConfig ex_signin) = Inr (ex_new_profile, True)"
  by (simp add: updateProfileApps_def reconcileProfile_def hasOwnProperty_def assignProperty_def
      ex_broker_def ex_lookup_fails_def ex_signin_def default_profile_def ex_new_profile_def
      gaiaPrefix_def ex_config_def Let_def)

lemma ex_signInUpload:
  "signInUpload (ex_broker upl) ''https://profilehub.example'' ex_signin (ex_new_profile, True) =
     ([\<lparr>up_gaiaUrls = [''https://profilehub.example''], up_profileJWT = ''profile-jwt'',
        up_privateKey = ''keyA'', up_name = ''alice.id''\<rparr>], upl)"
  by (simp add: signInUpload_def ex_signin_def ex_broker_def ex_alice_def Let_def)

lemma ex_handleSignIn_failed:
  "handleSignIn (ex_broker ex_upload_failed) ''seed'' ''https://apphub.example''
     ''https://profilehub.example'' (Some ''outer-token'') =
   (SendJSON 502
      ''Unable to process signin request: Failed to upload new profile: hub unreachable'',
    [\<lparr>up_gaiaUrls = [''https://profilehub.example''], up_profileJWT = ''profile-jwt'',
      up_privateKey = ''keyA'', up_name = ''alice.id''\<rparr>])"
proof -
  have red: "signInRedirect (ex_broker ex_upload_failed) ex_signin ex_upload_failed =
           Inl \<lparr>errorMsg = Some ''Failed to upload new profile: hub unreachable'',
                errorStatusCode = 502\<rparr>"
    by (simp add: signInRedirect_def ex_upload_failed_def truthy_def)
  show ?thesis
    by (simp add: handleSignIn_def truthy_def ex_signInDecrypt ex_signInResign
        ex_updateProfileApps ex_signInUpload red signInCatch_def)
qed

lemma ex_handleSignIn_done:
  "handleSignIn (ex_broker ex_upload_done) ''seed'' ''https://apphub.example''
     ''https://profilehub.example'' (Some ''outer-token'') =
   (Redirect ''https://app.example/cb?authResponse=signed-by-keyA'',
    [\<lparr>up_gaiaUrls = [''https://profilehub.example''], up_profileJWT = ''profile-jwt'',
      up_privateKey = ''keyA'', up_name = ''alice.id''\<rparr>])"
proof -
  have red: "signInRedirect (ex_broker ex_upload_done) ex_signin ex_upload_done =
           Inr (Redirect ''https://app.example/cb?authResponse=signed-by-keyA'')"
    by (simp add: signInRedirect_def ex_upload_done_def ex_broker_def ex_signin_def)
  show ?thesis
    by (simp add: handleSignIn_def truthy_def ex_signInDecrypt ex_signInResign
        ex_updateProfileApps ex_signInUpload red)
qed



text \<open>
  C7. When the handler redirects, the credential appended to the redirect target is the
  decoded payload with its metadata replaced by the object \<^verbatim>\<open>{ profileUrl }\<close> alone,
  signed with the private key of the identity: the identity object, application origin,
  redirect target, scopes and salt of the handshake metadata are not part of what is
  signed.
\<close>

theorem handleSignIn_outward_metadata:
  assumes "truthy tok"
      and "signInDecrypt env tok = Inr (authResponse, valid)"
      and "metadata (decodeToken env authResponse) = HandshakeMetadata md"
      and "fst (handleSignIn env mnemonic appGaiaHub profileGaiaHub (Some tok)) = Redirect location"
  shows "location =
           updateQueryStringParameter env (md_redirect_uri md) ''authResponse''
             (tokenSign env ''ES256K'' (privateKey (md_id md))
                ((decodeToken env authResponse)\<lparr>metadata := ProfileUrlOnly (md_profileUrl md)\<rparr>))"
proof -
  from assms(1,2,4) obtain st where
    st: "signInResign env mnemonic appGaiaHub (authResponse, valid) = Inr st"
    by (auto simp: handleSignIn_def signInCatch_def split: sum.splits)
  note facts = signInResign_Inr[OF st assms(3)]
  have "\<exists>prof changed.
          updateProfileApps (nameLookup env) (si_id st) (si_appOrigin st) (si_appHubConfig st)
            = Inr (prof, changed)"
  proof (cases "updateProfileApps (nameLookup env) (si_id st) (si_appOrigin st)
                  (si_appHubConfig st)")
    case (Inl e)
    then show ?thesis
      using assms(1,2,4) st by (simp add: handleSignIn_def signInCatch_def)
  next
    case (Inr r)
    then show ?thesis by (cases r) simp
  qed
  then obtain prof changed where
    u: "updateProfileApps (nameLookup env) (si_id st) (si_appOrigin st) (si_appHubConfig st)
          = Inr (prof, changed)"
    by blast
  have h: "handleSignIn env mnemonic appGaiaHub profileGaiaHub (Some tok) =
           (case signInRedirect env st
                   (snd (signInUpload env profileGaiaHub st (prof, changed))) of
              Inl f \<Rightarrow> signInCatch f
            | Inr r \<Rightarrow> r,
            fst (signInUpload env profileGaiaHub st (prof, changed)))"
    by (rule handleSignIn_reached[OF assms(1,2) st u])
  have "location = updateQueryStringParameter env (si_redirectUri st) ''authResponse''
                     (si_authResponse st)"
    using assms(4) h
    by (auto simp: signInRedirect_def signInCatch_def split: sum.splits option.splits if_splits)
  with facts show ?thesis by simp
qed

theorem handleSignIn_outward_metadata_witness:
  "truthy ''outer-token'' \<and>
   signInDecrypt (ex_broker ex_upload_done) ''outer-token'' = Inr (''inner-token'', True) \<and>
   metadata (decodeToken (ex_broker ex_upload_done) ''inner-token'') =
     HandshakeMetadata ex_handshake \<and>
   fst (handleSignIn (ex_broker ex_upload_done) ''seed'' ''https://apphub.example''
          ''https://profilehub.example'' (Some ''outer-token'')) =
     Redirect ''https://app.example/cb?authResponse=signed-by-keyA'' \<and>
   ''https://app.example/cb?authResponse=signed-by-keyA'' =
     updateQueryStringParameter (ex_broker ex_upload_done) (md_redirect_uri ex_handshake)
       ''authResponse''
       (tokenSign (ex_broker ex_upload_done) ''ES256K'' (privateKey (md_id ex_handshake))
          ((decodeToken (ex_broker ex_upload_done) ''inner-token'')
             \<lparr>metadata := ProfileUrlOnly (md_profileUrl ex_handshake)\<rparr>))"
proof -
  have t: "truthy ''outer-token''" by (simp add: truthy_def)
  have r: "fst (handleSignIn (ex_broker ex_upload_done) ''seed'' ''https://apphub.example''
          ''https://profilehub.example'' (Some ''outer-token'')) =
     Redirect ''https://app.example/cb?authResponse=signed-by-keyA''"
    by (simp add: ex_handleSignIn_done)
  from handleSignIn_outward_metadata[OF t ex_signInDecrypt ex_metadata r] t r
  show ?thesis
    using ex_signInDecrypt[of ex_upload_done] ex_metadata[of ex_upload_done] by blast
qed

lemma getAppPrivateKey_derivation:
  assumes "getAppPrivateKey env mnemonic ident appOrigin = Inr appPrivateKey"
  shows "(case getGaiaAddressFromProfile env (profile ident) appOrigin of
            Inl e \<Rightarrow>
              extractAppKey env
                (getApplicationKeyInfo env mnemonic (idAddress ident) appOrigin (index ident))
                None = Inr appPrivateKey
          | Inr existingAppAddress \<Rightarrow>
              (case extractAppKey env
                      (getApplicationKeyInfo env mnemonic (idAddress ident) appOrigin (index ident))
                      (Some existingAppAddress) of
                 Inl e \<Rightarrow>
                   extractAppKey env
                     (getApplicationKeyInfo env mnemonic (idAddress ident) appOrigin (index ident))
                     None = Inr appPrivateKey
               | Inr key \<Rightarrow> key = appPrivateKey))"
  using assms by (auto simp: getAppPrivateKey_def Let_def split: sum.splits)

text \<open>
  C10. In the second step of the handler the key that signs the outward credential is
  \<^verbatim>\<open>metadata.id.privateKey\<close> of the decrypted credential. The application private key is
  derived anew from the mnemonic: it is what \<^verbatim>\<open>extractAppKey\<close> yields of
  \<^verbatim>\<open>getApplicationKeyInfo(network, mnemonic, id.idAddress, appOrigin, id.index)\<close>, first with
  the address the profile names and, when that attempt throws, without an address; and it
  is the key the application's hub is connected with. The mnemonic enters in no other way:
  any other mnemonic that yields the same application key information gives the same
  result of the step.
\<close>

theorem signInResign_identity_key_from_metadata:
  assumes "signInResign env mnemonic appGaiaHub (authResponse, valid) = Inr st"
      and "metadata (decodeToken env authResponse) = HandshakeMetadata md"
  shows "si_id st = md_id md \<and>
         si_authResponse st =
           tokenSign env ''ES256K'' (privateKey (md_id md))
             ((decodeToken env authResponse)\<lparr>metadata := ProfileUrlOnly (md_profileUrl md)\<rparr>) \<and>
         (\<exists>appPrivateKey.
            gaiaConnect env appGaiaHub appPrivateKey = Inr (si_appHubConfig st) \<and>
            (case getGaiaAddressFromProfile env (profile (md_id md)) (md_appOrigin md) of
               Inl e \<Rightarrow>
                 extractAppKey env
                   (getApplicationKeyInfo env mnemonic (idAddress (md_id md)) (md_appOrigin md)
                      (index (md_id md)))
                   None = Inr appPrivateKey
             | Inr existingAppAddress \<Rightarrow>
                 (case extractAppKey env
                         (getApplicationKeyInfo env mnemonic (idAddress (md_id md))
                            (md_appOrigin md) (index (md_id md)))
                         (Some existingAppAddress) of
                    Inl e \<Rightarrow>
                      extractAppKey env
                        (getApplicationKeyInfo env mnemonic (idAddress (md_id md))
                           (md_appOrigin md) (index (md_id md)))
                        None = Inr appPrivateKey
                  | Inr key \<Rightarrow> key = appPrivateKey))) \<and>
         (\<forall>mnemonic'.
            (\<forall>a orig i. getApplicationKeyInfo env mnemonic' a orig i =
                         getApplicationKeyInfo env mnemonic a orig i) \<longrightarrow>
            signInResign env mnemonic' appGaiaHub (authResponse, valid) = Inr st)"
proof (intro conjI allI impI)
  show "si_id st = md_id md"
    using signInResign_Inr[OF assms] by blast
  show "si_authResponse st =
           tokenSign env ''ES256K'' (privateKey (md_id md))
             ((decodeToken env authResponse)\<lparr>metadata := ProfileUrlOnly (md_profileUrl md)\<rparr>)"
    using signInResign_Inr[OF assms] by blast
  from signInResign_Inr[OF assms] obtain appPrivateKey where
    k: "getAppPrivateKey env mnemonic (md_id md) (md_appOrigin md) = Inr appPrivateKey"
    and c: "gaiaConnect env appGaiaHub appPrivateKey = Inr (si_appHubConfig st)"
    by blast
  from c getAppPrivateKey_derivation[OF k]
  show "\<exists>appPrivateKey.
            gaiaConnect env appGaiaHub appPrivateKey = Inr (si_appHubConfig st) \<and>
            (case getGaiaAddressFromProfile env (profile (md_id md)) (md_appOrigin md) of
               Inl e \<Rightarrow>
                 extractAppKey env
                   (getApplicationKeyInfo env mnemonic (idAddress (md_id md)) (md_appOrigin md)
                      (index (md_id md)))
                   None = Inr appPrivateKey
             | Inr existingAppAddress \<Rightarrow>
                 (case extractAppKey env
                         (getApplicationKeyInfo env mnemonic (idAddress (md_id md))
                            (md_appOrigin md) (index (md_id md)))
                         (Some existingAppAddress) of
                    Inl e \<Rightarrow>
                      extractAppKey env
                        (getApplicationKeyInfo env mnemonic (idAddress (md_id md))
                           (md_appOrigin md) (index (md_id md)))
                        None = Inr appPrivateKey
                  | Inr key \<Rightarrow> key = appPrivateKey))"
    by blast
next
  fix mnemonic'
  assume same: "\<forall>a orig i. getApplicationKeyInfo env mnemonic' a orig i =
                            getApplicationKeyInfo env mnemonic a orig i"
  have "signInResign env mnemonic' appGaiaHub (authResponse, valid) =
        signInResign env mnemonic appGaiaHub (authResponse, valid)"
    by (rule signInResign_mnemonic[OF same])
  also note assms(1)
  finally show "signInResign env mnemonic' appGaiaHub (authResponse, valid) = Inr st" .
qed

text \<open>
  In the scenario the application key information depends on the mnemonic: the mnemonic
  \<^verbatim>\<open>seed phrase\<close> yields the same as \<^verbatim>\<open>seed\<close> and the same result of the step, and the
  mnemonic \<^verbatim>\<open>other\<close> yields a key the hub does not accept.
\<close>

theorem signInResign_identity_key_from_metadata_witness:
  "signInResign (ex_broker ex_upload_done) ''seed'' ''https://apphub.example''
     (''inner-token'', True) = Inr ex_signin \<and>
   metadata (decodeToken (ex_broker ex_upload_done) ''inner-token'') =
     HandshakeMetadata ex_handshake \<and>
   si_id ex_signin = md_id ex_handshake \<and>
   si_authResponse ex_signin =
     tokenSign (ex_broker ex_upload_done) ''ES256K'' (privateKey (md_id ex_handshake))
       ((decodeToken (ex_broker ex_upload_done) ''inner-token'')
          \<lparr>metadata := ProfileUrlOnly (md_profileUrl ex_handshake)\<rparr>) \<and>
   getApplicationKeyInfo (ex_broker ex_upload_done) ''seed'' (idAddress (md_id ex_handshake))
     (md_appOrigin ex_handshake) (index (md_id ex_handshake)) = ''app-key-of-seed'' \<and>
   extractAppKey (ex_broker ex_upload_done) ''app-key-of-seed'' None = Inr ''app-key-of-seed'' \<and>
   gaiaConnect (ex_broker ex_upload_done) ''https://apphub.example'' ''app-key-of-seed'' =
     Inr (si_appHubConfig ex_signin) \<and>
   signInResign (ex_broker ex_upload_done) ''seed phrase'' ''https://apphub.example''
     (''inner-token'', True) = Inr ex_signin \<and>
   signInResign (ex_broker ex_upload_done) ''other'' ''https://apphub.example''
     (''inner-token'', True) = Inl \<lparr>errorMsg = None, errorStatusCode = 400\<rparr>"
proof -
  have same: "\<forall>a orig i.
      getApplicationKeyInfo (ex_broker ex_upload_done) ''seed phrase'' a orig i =
      getApplicationKeyInfo (ex_broker ex_upload_done) ''seed'' a orig i"
    by (simp add: ex_broker_def)
  have info: "getApplicationKeyInfo (ex_broker ex_upload_done) ''seed''
      (idAddress (md_id ex_handshake)) (md_appOrigin ex_handshake) (index (md_id ex_handshake)) =
      ''app-key-of-seed''"
    and ext: "extractAppKey (ex_broker ex_upload_done) ''app-key-of-seed'' None =
      Inr ''app-key-of-seed''"
    and hub: "gaiaConnect (ex_broker ex_upload_done) ''https://apphub.example''
      ''app-key-of-seed'' = Inr (si_appHubConfig ex_signin)"
    by (simp_all add: ex_broker_def ex_signin_def)
  have other: "signInResign (ex_broker ex_upload_done) ''other'' ''https://apphub.example''
     (''inner-token'', True) = Inl \<lparr>errorMsg = None, errorStatusCode = 400\<rparr>"
  proof -
    have k: "getAppPrivateKey (ex_broker ex_upload_done) ''other'' ex_alice
               ''https://app.example'' = Inr ''app-key-of-othe''"
      by (simp add: getAppPrivateKey_def ex_broker_def Let_def)
    have fields: "md_id ex_handshake = ex_alice"
      "md_appOrigin ex_handshake = ''https://app.example''"
      by (simp_all add: ex_handshake_def)
    have refused: "\<And>h. gaiaConnect (ex_broker ex_upload_done) h ''app-key-of-othe'' =
                     Inl (Error ''not authorized'')"
      by (simp add: ex_broker_def)
    show ?thesis
      by (simp add: signInResign_def ex_metadata fields k refused Let_def)
  qed
  note k = signInResign_identity_key_from_metadata
             [OF ex_signInResign[of ex_upload_done] ex_metadata[of ex_upload_done]]
  from k have again: "signInResign (ex_broker ex_upload_done) ''seed phrase''
                 ''https://apphub.example'' (''inner-token'', True) = Inr ex_signin"
    using same by blast
  from k have "si_id ex_signin = md_id ex_handshake"
    and "si_authResponse ex_signin =
     tokenSign (ex_broker ex_upload_done) ''ES256K'' (privateKey (md_id ex_handshake))
       ((decodeToken (ex_broker ex_upload_done) ''inner-token'')
          \<lparr>metadata := ProfileUrlOnly (md_profileUrl ex_handshake)\<rparr>)"
    by blast+
  with again other info ext hub ex_signInResign[of ex_upload_done] ex_metadata[of ex_upload_done]
  show ?thesis by (intro conjI)
qed

section \<open>Properties of the backup phrase encryption\<close>

lemma hexDigits_decode: "list_all (\<lambda>n. hexValue (hexDigit n) = Some n) [0..<16]"
  by code_simp

lemma hexValue_hexDigit: "n < 16 \<Longrightarrow> hexValue (hexDigit n) = Some n"
  using hexDigits_decode by (simp add: list_all_iff)

lemma byte_nibbles: "(of_nat (16 * (unat b div 16) + unat b mod 16) :: byte) = b"
  by simp

lemma unat_byte_div: "unat (b :: byte) div 16 < 16"
proof -
  have "unat b < 2 ^ 8" using unsigned_less[of b, where ?'a = nat] by simp
  then show ?thesis by simp
qed

lemma fromHex_toHex: "fromHex (toHex bs) = bs"
proof (induction bs)
  case Nil
  show ?case by (simp add: toHex_def)
next
  case (Cons b bs)
  have "toHex (b # bs) = hexDigit (unat b div 16) # hexDigit (unat b mod 16) # toHex bs"
    by (simp add: toHex_def)
  then show ?case
    using Cons hexValue_hexDigit[OF unat_byte_div[of b]] hexValue_hexDigit[of "unat b mod 16"]
    by (simp add: byte_nibbles del: of_nat_add of_nat_mult)
qed

lemma backup_slices:
  assumes "length salt = 16" and "length mac = 32"
  shows "slice 0 16 (salt @ mac @ ct) = salt"
    and "slice 16 48 (salt @ mac @ ct) = mac"
    and "drop 48 (salt @ mac @ ct) = ct"
  using assms by (simp_all add: slice_def)

lemma keyBlock_split:
  assumes "length kb = 48"
  shows "kb = slice 0 16 kb @ slice 16 32 kb @ slice 32 48 kb"
    and "length (slice 0 16 kb) = 16" and "length (slice 16 32 kb) = 16"
    and "length (slice 32 48 kb) = 16"
    and "slice 0 16 kb = take 16 kb" and "slice 16 32 kb = take 16 (drop 16 kb)"
    and "slice 32 48 kb = take 16 (drop 32 kb)"
proof -
  have a: "take 16 (drop 32 kb) = drop 32 kb"
    using assms by simp
  have "drop 32 kb = drop 16 (drop 16 kb)"
    by simp
  then have b: "take 16 (drop 16 kb) @ drop 32 kb = drop 16 kb"
    by (simp only: append_take_drop_id)
  have "take 16 kb @ take 16 (drop 16 kb) @ take 16 (drop 32 kb) = kb"
    by (simp only: a b append_take_drop_id)
  then show "kb = slice 0 16 kb @ slice 16 32 kb @ slice 32 48 kb"
    by (simp add: slice_def)
qed (use assms in \<open>simp_all add: slice_def\<close>)

lemma ex_lengths:
  "length ex_salt = 16" "length ex_hmac = 32" "length ex_keys_correct = 48"
  by (simp_all add: ex_salt_def ex_hmac_def ex_keys_correct_def)

lemma ex_hex: "toHex (fromHex ex_entropy) = ex_entropy"
  by (simp add: ex_entropy_def toHex_def hexValue_def hexDigit_def)

lemma randomBytes_length: "length (randomBytes prim n) = n"
  by (simp add: randomBytes_def)

lemma ex_randomBytes: "randomBytes ex_primitives 16 = ex_salt"
  by code_simp

lemma encryptMnemonic_Inr:
  assumes "validateMnemonic prim plaintext"
      and "mnemonicToEntropy prim plaintext = Inr entropy"
      and "salt = randomBytes prim 16"
  shows "encryptMnemonic prim plaintext password =
           Inr (salt @
                hmac prim ''sha256''
                  (slice 16 32 (pbkdf2Sync prim password salt 100000 48 ''sha512''))
                  (salt @
                   cipheriv prim ''aes-128-cbc''
                     (slice 0 16 (pbkdf2Sync prim password salt 100000 48 ''sha512''))
                     (slice 32 48 (pbkdf2Sync prim password salt 100000 48 ''sha512''))
                     (fromHex entropy)) @
                cipheriv prim ''aes-128-cbc''
                  (slice 0 16 (pbkdf2Sync prim password salt 100000 48 ''sha512''))
                  (slice 32 48 (pbkdf2Sync prim password salt 100000 48 ''sha512''))
                  (fromHex entropy))"
  using assms(1,2) unfolding assms(3)
  by (simp add: encryptMnemonic_def Let_def fromHex_toHex)

lemma ex_encrypt:
  "encryptBackupPhrase ex_primitives ex_mnemonic ''correct horse'' = Inr ex_backup"
proof -
  have v: "validateMnemonic ex_primitives ex_mnemonic"
    and e: "mnemonicToEntropy ex_primitives ex_mnemonic = Inr ex_entropy"
    by (simp_all add: ex_primitives_def)
  show ?thesis
    unfolding encryptBackupPhrase_def encryptMnemonic_Inr[OF v e refl] ex_randomBytes
    by (simp add: ex_primitives_def ex_backup_def slice_def)
qed

lemma ex_decrypt_wrong:
  "decryptMnemonic ex_primitives ex_backup ''wrong'' =
     Inl (Error ''error:06065064:digital envelope routines:EVP_DecryptFinal_ex:bad decrypt'')"
  by (simp add: decryptMnemonic_def ex_primitives_def ex_backup_def ex_salt_def ex_hmac_def
      ex_cipherText_def ex_keys_wrong_def ex_keys_correct_def slice_def Let_def)

lemma ex_decrypt_right:
  "decryptMnemonic ex_primitives ex_backup ''correct horse'' = Inr ex_mnemonic"
proof -
  have s: "slice 0 16 ex_backup = ex_salt" "slice 16 48 ex_backup = ex_hmac"
    "drop 48 ex_backup = ex_cipherText"
    unfolding ex_backup_def by (rule backup_slices[OF ex_lengths(1,2)])+
  show ?thesis
    by (simp add: decryptMnemonic_def Let_def s fromHex_toHex)
       (simp add: ex_primitives_def slice_def ex_hex)
qed

text \<open>
  C9. For a valid mnemonic, a key derivation that returns the 48 bytes asked for and an
  HMAC-SHA256 of 32 bytes, \<^verbatim>\<open>encryptBackupPhrase\<close> returns what the format of the
  specification prescribes: the salt is the 16 bytes of \<^verbatim>\<open>crypto.randomBytes(16)\<close>; the key
  block of the 100,000-iteration key derivation over the salt is the cipher key, the MAC
  key and the initialisation vector, 16 bytes each; the cipher text is the normalized
  entropy under AES-128-CBC; the MAC is taken over salt and cipher text with the MAC key;
  and the output is the salt, the MAC and the cipher text, which the slices of the decoder
  (0 to 16, 16 to 48, from 48) give back.
\<close>

theorem encryptBackupPhrase_format:
  assumes "validateMnemonic prim plaintext"
      and "mnemonicToEntropy prim plaintext = Inr entropy"
      and "length (pbkdf2Sync prim password (randomBytes prim 16) 100000 48 ''sha512'') = 48"
      and "\<forall>key payload. length (hmac prim ''sha256'' key payload) = 32"
  shows "encryptBackupPhrase prim plaintext password =
           Inr (backupFormat prim (randomBytes prim 16) (fromHex entropy) password) \<and>
         (\<exists>salt cipherKey macKey iv cipherText mac.
            salt = map (randomByte prim) [0..<16] \<and> length salt = 16 \<and>
            pbkdf2Sync prim password salt 100000 48 ''sha512'' = cipherKey @ macKey @ iv \<and>
            length cipherKey = 16 \<and> length macKey = 16 \<and> length iv = 16 \<and>
            cipherText = cipheriv prim ''aes-128-cbc'' cipherKey iv (fromHex entropy) \<and>
            mac = hmac prim ''sha256'' macKey (salt @ cipherText) \<and>
            length mac = 32 \<and>
            encryptBackupPhrase prim plaintext password = Inr (salt @ mac @ cipherText) \<and>
            slice 0 16 (salt @ mac @ cipherText) = salt \<and>
            slice 16 48 (salt @ mac @ cipherText) = mac \<and>
            drop 48 (salt @ mac @ cipherText) = cipherText)"
proof -
  define salt where "salt = randomBytes prim 16"
  let ?kb = "pbkdf2Sync prim password salt 100000 48 ''sha512''"
  let ?ct = "cipheriv prim ''aes-128-cbc'' (slice 0 16 ?kb) (slice 32 48 ?kb) (fromHex entropy)"
  let ?mac = "hmac prim ''sha256'' (slice 16 32 ?kb) (salt @ ?ct)"
  have gen: "salt = map (randomByte prim) [0..<16]"
    by (simp only: salt_def randomBytes_def)
  have len: "length salt = 16"
    by (simp only: salt_def randomBytes_length)
  have kbl: "length ?kb = 48"
    using assms(3) by (simp only: salt_def)
  note kb = keyBlock_split[OF kbl]
  have enc: "encryptBackupPhrase prim plaintext password = Inr (salt @ ?mac @ ?ct)"
    unfolding encryptBackupPhrase_def by (rule encryptMnemonic_Inr[OF assms(1,2) salt_def])
  have fmt: "backupFormat prim salt (fromHex entropy) password = salt @ ?mac @ ?ct"
    by (simp add: backupFormat_def Let_def kb(5,6,7))
  have mac: "length ?mac = 32" using assms(4) by simp
  note sl = backup_slices[OF len mac, of ?ct]
  have "salt = map (randomByte prim) [0..<16] \<and> length salt = 16 \<and>
        ?kb = slice 0 16 ?kb @ slice 16 32 ?kb @ slice 32 48 ?kb \<and>
        length (slice 0 16 ?kb) = 16 \<and> length (slice 16 32 ?kb) = 16 \<and>
        length (slice 32 48 ?kb) = 16 \<and>
        ?ct = cipheriv prim ''aes-128-cbc'' (slice 0 16 ?kb) (slice 32 48 ?kb) (fromHex entropy) \<and>
        ?mac = hmac prim ''sha256'' (slice 16 32 ?kb) (salt @ ?ct) \<and>
        length ?mac = 32 \<and>
        encryptBackupPhrase prim plaintext password = Inr (salt @ ?mac @ ?ct) \<and>
        slice 0 16 (salt @ ?mac @ ?ct) = salt \<and>
        slice 16 48 (salt @ ?mac @ ?ct) = ?mac \<and>
        drop 48 (salt @ ?mac @ ?ct) = ?ct"
    using gen len kb(1,2,3,4) mac enc sl by blast
  then have ex: "\<exists>salt cipherKey macKey iv cipherText mac.
            salt = map (randomByte prim) [0..<16] \<and> length salt = 16 \<and>
            pbkdf2Sync prim password salt 100000 48 ''sha512'' = cipherKey @ macKey @ iv \<and>
            length cipherKey = 16 \<and> length macKey = 16 \<and> length iv = 16 \<and>
            cipherText = cipheriv prim ''aes-128-cbc'' cipherKey iv (fromHex entropy) \<and>
            mac = hmac prim ''sha256'' macKey (salt @ cipherText) \<and>
            length mac = 32 \<and>
            encryptBackupPhrase prim plaintext password = Inr (salt @ mac @ cipherText) \<and>
            slice 0 16 (salt @ mac @ cipherText) = salt \<and>
            slice 16 48 (salt @ mac @ cipherText) = mac \<and>
            drop 48 (salt @ mac @ cipherText) = cipherText"
    by (intro exI)
  have "encryptBackupPhrase prim plaintext password =
           Inr (backupFormat prim (randomBytes prim 16) (fromHex entropy) password)"
    using enc fmt by (simp only: salt_def)
  from this ex show ?thesis by (rule conjI)
qed

text \<open>
  In the scenario the generator yields the bytes 00 to 0f, and the backup is the one of
  the test vector.
\<close>

theorem encryptBackupPhrase_format_witness:
  "validateMnemonic ex_primitives ex_mnemonic \<and>
   mnemonicToEntropy ex_primitives ex_mnemonic = Inr ex_entropy \<and>
   length (pbkdf2Sync ex_primitives ''correct horse'' (randomBytes ex_primitives 16)
             100000 48 ''sha512'') = 48 \<and>
   (\<forall>key payload. length (hmac ex_primitives ''sha256'' key payload) = 32) \<and>
   randomBytes ex_primitives 16 = ex_salt \<and>
   encryptBackupPhrase ex_primitives ex_mnemonic ''correct horse'' =
     Inr (backupFormat ex_primitives ex_salt (fromHex ex_entropy) ''correct horse'') \<and>
   backupFormat ex_primitives ex_salt (fromHex ex_entropy) ''correct horse'' = ex_backup"
proof -
  have v: "validateMnemonic ex_primitives ex_mnemonic"
    by (simp add: ex_primitives_def)
  have e: "mnemonicToEntropy ex_primitives ex_mnemonic = Inr ex_entropy"
    by (simp add: ex_primitives_def)
  have k: "length (pbkdf2Sync ex_primitives ''correct horse'' (randomBytes ex_primitives 16)
             100000 48 ''sha512'') = 48"
    by (simp add: ex_randomBytes) (simp add: ex_primitives_def ex_lengths)
  have h: "\<forall>key payload. length (hmac ex_primitives ''sha256'' key payload) = 32"
    by (simp add: ex_primitives_def ex_lengths)
  from encryptBackupPhrase_format[OF v e k h]
  have f: "encryptBackupPhrase ex_primitives ex_mnemonic ''correct horse'' =
     Inr (backupFormat ex_primitives ex_salt (fromHex ex_entropy) ''correct horse'')"
    unfolding ex_randomBytes by blast
  with ex_encrypt have "backupFormat ex_primitives ex_salt (fromHex ex_entropy)
                          ''correct horse'' = ex_backup"
    by simp
  with v e k h ex_randomBytes f show ?thesis by (intro conjI)
qed

text \<open>
  The round trip of a backup: with a cipher that deciphers what it enciphered and a
  mnemonic whose entropy the word list maps back to it, decrypting a backup under the
  password it was made with returns the mnemonic. No fallback to the legacy algorithm
  takes place.
\<close>

lemma decryptBackupPhrase_roundtrip:
  assumes "validateMnemonic prim plaintext"
      and "mnemonicToEntropy prim plaintext = Inr entropy"
      and "toHex (fromHex entropy) = entropy"
      and "entropyToMnemonic prim entropy = Inr plaintext"
      and "\<forall>key iv plain.
             decipheriv prim ''aes-128-cbc'' key iv (cipheriv prim ''aes-128-cbc'' key iv plain)
               = Inr plain"
      and "\<forall>key payload. length (hmac prim ''sha256'' key payload) = 32"
      and "encryptBackupPhrase prim plaintext password = Inr backup"
  shows "decryptMnemonic prim backup password = Inr plaintext \<and>
         decryptBackupPhrase prim backup password = Inr (Mnemonic plaintext)"
proof -
  define salt where "salt = randomBytes prim 16"
  let ?kb = "pbkdf2Sync prim password salt 100000 48 ''sha512''"
  let ?ct = "cipheriv prim ''aes-128-cbc'' (slice 0 16 ?kb) (slice 32 48 ?kb) (fromHex entropy)"
  let ?mac = "hmac prim ''sha256'' (slice 16 32 ?kb) (salt @ ?ct)"
  have len: "length salt = 16"
    by (simp only: salt_def randomBytes_length)
  have "encryptBackupPhrase prim plaintext password = Inr (salt @ ?mac @ ?ct)"
    unfolding encryptBackupPhrase_def by (rule encryptMnemonic_Inr[OF assms(1,2) salt_def])
  with assms(7) have backup: "backup = salt @ ?mac @ ?ct" by simp
  have mac: "length ?mac = 32" using assms(6) by simp
  have s: "slice 0 16 backup = salt" "slice 16 48 backup = ?mac" "drop 48 backup = ?ct"
    unfolding backup by (rule backup_slices[OF len mac])+
  have d: "decipheriv prim ''aes-128-cbc'' (slice 0 16 ?kb) (slice 32 48 ?kb) ?ct
             = Inr (fromHex entropy)"
    using assms(5) by blast
  have "decryptMnemonic prim backup password = Inr plaintext"
    by (simp add: decryptMnemonic_def Let_def s fromHex_toHex d assms(1,3,4))
  then show ?thesis by (simp add: decryptBackupPhrase_def)
qed

text \<open>
  The laws of the round trip hold of a cipher that leaves its input as it is, put in the
  place of the one of \<open>ex_primitives\<close>.
\<close>

lemma decryptBackupPhrase_roundtrip_example:
  "decryptBackupPhrase
     (ex_primitives\<lparr>cipheriv := (\<lambda>algorithm key iv plain. plain),
                    decipheriv := (\<lambda>algorithm key iv cipherText. Inr cipherText)\<rparr>)
     (ex_salt @ ex_hmac @ fromHex ex_entropy)
     ''correct horse'' = Inr (Mnemonic ex_mnemonic)"
proof -
  let ?prim = "ex_primitives\<lparr>cipheriv := (\<lambda>algorithm key iv plain. plain),
                 decipheriv := (\<lambda>algorithm key iv cipherText. Inr cipherText)\<rparr>"
  have v: "validateMnemonic ?prim ex_mnemonic"
    and e: "mnemonicToEntropy ?prim ex_mnemonic = Inr ex_entropy"
    and m: "entropyToMnemonic ?prim ex_entropy = Inr ex_mnemonic"
    and c: "\<forall>key iv plain.
             decipheriv ?prim ''aes-128-cbc'' key iv (cipheriv ?prim ''aes-128-cbc'' key iv plain)
               = Inr plain"
    and h: "\<forall>key payload. length (hmac ?prim ''sha256'' key payload) = 32"
    by (simp_all add: ex_primitives_def ex_lengths)
  have r: "randomBytes ?prim 16 = randomBytes ex_primitives 16"
    by (simp add: randomBytes_def)
  have enc: "encryptBackupPhrase ?prim ex_mnemonic ''correct horse'' =
               Inr (ex_salt @ ex_hmac @ fromHex ex_entropy)"
    unfolding encryptBackupPhrase_def encryptMnemonic_Inr[OF v e refl] r ex_randomBytes
    by (simp add: ex_primitives_def slice_def)
  from decryptBackupPhrase_roundtrip[OF v e ex_hex m c h enc]
  show ?thesis by simp
qed

text \<open>
  C8 fails on the code for a wrong password. The backup of \<open>ex_mnemonic\<close> under the
  password \<^verbatim>\<open>correct horse\<close> decrypts to the mnemonic under that password. Under the
  password \<^verbatim>\<open>wrong\<close>, \<^verbatim>\<open>decipher.final()\<close> throws before the digests are compared, so the
  error of the current algorithm is the cipher's \<^verbatim>\<open>bad decrypt\<close>, not
  \<^verbatim>\<open>Wrong password (HMAC mismatch)\<close>.
\<close>

theorem decryptBackupPhrase_wrong_password_cipher_error:
  "encryptBackupPhrase ex_primitives ex_mnemonic ''correct horse'' = Inr ex_backup \<and>
   decryptBackupPhrase ex_primitives ex_backup ''correct horse'' = Inr (Mnemonic ex_mnemonic) \<and>
   decryptMnemonic ex_primitives ex_backup ''wrong'' =
     Inl (Error ''error:06065064:digital envelope routines:EVP_DecryptFinal_ex:bad decrypt'') \<and>
   decryptMnemonic ex_primitives ex_backup ''wrong'' \<noteq>
     Inl (Error ''Wrong password (HMAC mismatch)'') \<and>
   decryptBackupPhrase ex_primitives ex_backup ''wrong'' =
     Inl (Error (''current algorithm: '' @ [CHR 0x22] @
                 ''error:06065064:digital envelope routines:EVP_DecryptFinal_ex:bad decrypt'' @
                 [CHR 0x22] @ '', legacy algorithm: '' @ [CHR 0x22] @
                 ''not a legacy backup'' @ [CHR 0x22]))"
proof -
  have legacy: "triplesecDecrypt ex_primitives ''wrong'' ex_backup =
                  Inl (Error ''not a legacy backup'')"
    by (simp add: ex_primitives_def)
  have right: "decryptBackupPhrase ex_primitives ex_backup ''correct horse'' =
                 Inr (Mnemonic ex_mnemonic)"
    by (simp add: decryptBackupPhrase_def ex_decrypt_right)
  have wrong: "decryptBackupPhrase ex_primitives ex_backup ''wrong'' =
     Inl (Error (''current algorithm: '' @ [CHR 0x22] @
                 ''error:06065064:digital envelope routines:EVP_DecryptFinal_ex:bad decrypt'' @
                 [CHR 0x22] @ '', legacy algorithm: '' @ [CHR 0x22] @
                 ''not a legacy backup'' @ [CHR 0x22]))"
    by (simp add: decryptBackupPhrase_def ex_decrypt_wrong legacy)
  have differ: "decryptMnemonic ex_primitives ex_backup ''wrong'' \<noteq>
     Inl (Error ''Wrong password (HMAC mismatch)'')"
    by (simp add: ex_decrypt_wrong)
  from ex_encrypt right ex_decrypt_wrong differ wrong show ?thesis
    by (intro conjI)
qed

end
